theory Spec2Isabelle
  imports Main "HOL-Library.Word" "HOL-Library.AList"
begin


section \<open>Python values, classes and exceptions\<close>

text \<open>
  The package \<^verbatim>\<open>dydactic\<close> coerces and validates plain Python data. The values below are
  the data the code inspects: scalars, the four container types tested by
  \<^verbatim>\<open>cast_as_union\<close>, instances of pydantic models and instances of plain classes.
  Strings are lists of code points below 256. A float is its IEEE-754 bit pattern; the
  numeric library functions on floats (rounding, printing) are parameters, see \<open>pylib\<close>.
  Values are finite trees: containers that contain themselves are outside the model. The
  interpreter is CPython 3.10 to 3.13 with its default settings.
\<close>

type_synonym pyfloat = "64 word"

datatype pydatetime = Datetime int

datatype pyval =
    PNone
  | PBool bool
  | PInt int
  | PFloat pyfloat
  | PStr string
  | PDatetime pydatetime
  | PList "pyval list"
  | PTuple "pyval list"
  | PDict "(pyval \<times> pyval) list"
  | PSet "pyval list"
  | PModel string "(string \<times> pyval) list"
  | PObject string "(string \<times> pyval) list"

text \<open>
  A record as the pipeline receives it: a \<^verbatim>\<open>dict\<close> with string keys is an association
  list in insertion order (keys distinct).
\<close>

type_synonym pydict = "(string \<times> pyval) list"

definition to_pyval :: "pydict \<Rightarrow> pyval" where
  "to_pyval d = PDict (map (\<lambda>(k, v). (PStr k, v)) d)"

text \<open>
  The external schema-validation oracle (pydantic). A model class is known by its name, by
  what \<^verbatim>\<open>model_validate(value, from_attributes=..., strict=...)\<close> returns on a value and
  by what \<^verbatim>\<open>model_validate_json(text, strict=...)\<close> returns on a text: the validated
  instance, or the oracle's own \<^verbatim>\<open>ValidationError\<close>, kept opaque. An instance
  \<open>PModel n fs\<close> of a model is known by the name of its class and by what its
  \<^verbatim>\<open>model_dump()\<close> returns; an instance \<open>PObject n fs\<close> of a plain class by the name
  of its class and its \<^verbatim>\<open>__dict__\<close>.
\<close>

datatype oracle_error = OracleError nat

datatype pydantic_model =
  PydanticModel (model_name: string)
    (model_validate: "bool option \<Rightarrow> bool option \<Rightarrow> pyval \<Rightarrow> oracle_error + pyval")
    (model_validate_json: "bool option \<Rightarrow> string \<Rightarrow> oracle_error + pyval")

text \<open>
  The classes that occur as annotations: the scalar kinds \<^verbatim>\<open>int\<close>, \<^verbatim>\<open>float\<close>,
  \<^verbatim>\<open>str\<close>, \<^verbatim>\<open>bool\<close>, then \<^verbatim>\<open>NoneType\<close> (from \<^verbatim>\<open>Optional\<close>), \<^verbatim>\<open>datetime\<close>
  and pydantic model classes. An annotation is one class or a union of classes, the members
  in the order \<^verbatim>\<open>typing.get_args\<close> returns them, which is the declared order. A union
  is written \<^verbatim>\<open>typing.Union[X, Y]\<close> (\<open>UnionOf\<close>) or \<^verbatim>\<open>X | Y\<close> (\<open>UnionType\<close>, an instance
  of \<^verbatim>\<open>types.UnionType\<close>). A class has a \<^verbatim>\<open>__name__\<close>, and so has a \<^verbatim>\<open>typing.Union\<close>; an
  instance of \<^verbatim>\<open>types.UnionType\<close> has none.
\<close>

datatype pytype = TInt | TFloat | TStr | TBool | TNoneType | TDatetime | TModel pydantic_model

datatype annotation = Plain pytype | UnionOf "pytype list" | UnionType "pytype list"

fun has_name :: "annotation \<Rightarrow> bool" where
  "has_name (Plain t) = True"
| "has_name (UnionOf ts) = True"
| "has_name (UnionType ts) = False"

text \<open>
  Exceptions. The handlers of the code select by class, so each exception the code can meet is
  a constructor; \<open>UnionTypeError\<close> is the \<^verbatim>\<open>TypeError\<close> raised at the end of
  \<^verbatim>\<open>cast_as_union\<close> with the attempted members, \<open>TransformShapeError\<close> the
  \<^verbatim>\<open>ValueError\<close> raised by \<^verbatim>\<open>apply_transforms\<close>. The text of a message is not modelled,
  but an exception raised while a message is built is.
\<close>

datatype exn_class =
    CValueError | CTypeError | CParserError | COverflowError | CKeyError | CAttributeError
  | CRecursionError | CPydanticValidationError | CValidationError

datatype err_text = Missing_required_field | Str_of exn_class

datatype error_info =
  ErrorInfo (err_type: annotation) (err_input_value: pyval) (err_input_type: string)
    (err_error: err_text)

text \<open>
  A line error as the package hands it to pydantic: its \<^verbatim>\<open>type\<close> is one of the two strings
  \<^verbatim>\<open>"type_error"\<close> and \<^verbatim>\<open>"value_error"\<close>, and it never has a \<^verbatim>\<open>ctx\<close>.
\<close>

datatype error_type = Type_error | Value_error

datatype line_error =
  LineError (le_type: error_type) (le_loc: "string list") (le_input: pyval)

datatype pydantic_error =
    FromOracle oracle_error
  | FromExceptionData string "line_error list"

datatype pyerr =
    ValueError
  | TypeError
  | ParserError
  | OverflowError
  | KeyError
  | AttributeError
  | RecursionError
  | UnionTypeError "pytype list"
  | TransformShapeError
  | PydanticValidationError pydantic_error
  | ValidationError "(string \<times> error_info) list"

fun class_of :: "pyerr \<Rightarrow> exn_class" where
  "class_of ValueError = CValueError"
| "class_of TypeError = CTypeError"
| "class_of ParserError = CParserError"
| "class_of OverflowError = COverflowError"
| "class_of KeyError = CKeyError"
| "class_of AttributeError = CAttributeError"
| "class_of RecursionError = CRecursionError"
| "class_of (UnionTypeError ts) = CTypeError"
| "class_of TransformShapeError = CValueError"
| "class_of (PydanticValidationError e) = CPydanticValidationError"
| "class_of (ValidationError es) = CValidationError"

text \<open>
  \<^verbatim>\<open>except ValueError\<close> also catches the subclasses of \<^verbatim>\<open>ValueError\<close>:
  \<^verbatim>\<open>dateutil.parser.ParserError\<close>, \<^verbatim>\<open>pydantic.ValidationError\<close> and the package's own
  \<^verbatim>\<open>ValidationError\<close>. \<^verbatim>\<open>OverflowError\<close> is an \<^verbatim>\<open>ArithmeticError\<close> and
  \<^verbatim>\<open>RecursionError\<close> a \<^verbatim>\<open>RuntimeError\<close>.
\<close>

definition is_ValueError :: "pyerr \<Rightarrow> bool" where
  "is_ValueError e \<longleftrightarrow>
     class_of e \<in> {CValueError, CParserError, CPydanticValidationError, CValidationError}"

definition is_TypeError :: "pyerr \<Rightarrow> bool" where
  "is_TypeError e \<longleftrightarrow> class_of e = CTypeError"

definition is_ParserError :: "pyerr \<Rightarrow> bool" where
  "is_ParserError e \<longleftrightarrow> class_of e = CParserError"

definition is_KeyError :: "pyerr \<Rightarrow> bool" where
  "is_KeyError e \<longleftrightarrow> class_of e = CKeyError"

section \<open>The built-in functions the code calls\<close>

text \<open>
  Library functions whose values the code only passes on: the float nearest to an integer
  or to a literal, the integer part of a float, the printed forms of floats and datetimes,
  \<^verbatim>\<open>dateutil.parser.parse\<close> on a string, which returns a datetime or raises (a
  \<^verbatim>\<open>ParserError\<close>, or an \<^verbatim>\<open>OverflowError\<close> on a number too large for a date), and the
  \<^verbatim>\<open>repr\<close> of an instance, which may raise too. \<open>repr_depth\<close> is the state of the
  interpreter's stack: how many levels \<^verbatim>\<open>repr\<close> can descend below the value it is called on
  before the recursion limit is reached (the few frames between the places where the package
  calls \<^verbatim>\<open>repr\<close> are not counted). Every definition below takes them as the parameter \<open>L\<close>.
\<close>

record pylib =
  float_of_int :: "int \<Rightarrow> pyfloat"
  float_of_literal :: "string \<Rightarrow> pyfloat"
  int_of_float :: "pyfloat \<Rightarrow> pyerr + int"
  float_repr :: "pyfloat \<Rightarrow> string"
  dateutil_parse :: "string \<Rightarrow> pyerr + pydatetime"
  datetime_str :: "pydatetime \<Rightarrow> string"
  datetime_repr :: "pydatetime \<Rightarrow> string"
  object_repr :: "nat \<Rightarrow> string \<Rightarrow> (string \<times> pyval) list \<Rightarrow> pyerr + string"
  repr_depth :: nat

subsection \<open>\<^verbatim>\<open>isinstance\<close>, \<^verbatim>\<open>type\<close>, \<^verbatim>\<open>len\<close>\<close>

text \<open>\<^verbatim>\<open>bool\<close> is a subclass of \<^verbatim>\<open>int\<close>.\<close>

fun isinstance :: "pyval \<Rightarrow> pytype \<Rightarrow> bool" where
  "isinstance (PInt n) TInt = True"
| "isinstance (PBool b) TInt = True"
| "isinstance (PFloat f) TFloat = True"
| "isinstance (PStr s) TStr = True"
| "isinstance (PBool b) TBool = True"
| "isinstance PNone TNoneType = True"
| "isinstance (PDatetime d) TDatetime = True"
| "isinstance (PModel n fs) (TModel m) = (n = model_name m)"
| "isinstance v t = False"

fun type_name :: "pyval \<Rightarrow> string" where
  "type_name PNone = ''NoneType''"
| "type_name (PBool b) = ''bool''"
| "type_name (PInt n) = ''int''"
| "type_name (PFloat f) = ''float''"
| "type_name (PStr s) = ''str''"
| "type_name (PDatetime d) = ''datetime''"
| "type_name (PList xs) = ''list''"
| "type_name (PTuple xs) = ''tuple''"
| "type_name (PDict kvs) = ''dict''"
| "type_name (PSet xs) = ''set''"
| "type_name (PModel n fs) = n"
| "type_name (PObject n fs) = n"

text \<open>\<^verbatim>\<open>isinstance(value, (list, dict, tuple, set))\<close> and \<^verbatim>\<open>isinstance(value, (list, tuple))\<close>.\<close>

fun is_container :: "pyval \<Rightarrow> bool" where
  "is_container (PList xs) = True"
| "is_container (PDict kvs) = True"
| "is_container (PTuple xs) = True"
| "is_container (PSet xs) = True"
| "is_container v = False"

fun is_list_or_tuple :: "pyval \<Rightarrow> bool" where
  "is_list_or_tuple (PList xs) = True"
| "is_list_or_tuple (PTuple xs) = True"
| "is_list_or_tuple v = False"

fun is_dict :: "pyval \<Rightarrow> bool" where
  "is_dict (PDict kvs) = True"
| "is_dict v = False"

text \<open>The elements of a list or tuple, for \<^verbatim>\<open>len(value)\<close> and \<^verbatim>\<open>value[0]\<close>.\<close>

fun elements :: "pyval \<Rightarrow> pyval list" where
  "elements (PList xs) = xs"
| "elements (PTuple xs) = xs"
| "elements v = []"

subsection \<open>\<^verbatim>\<open>int(s)\<close> and \<^verbatim>\<open>float(s)\<close> on strings\<close>

text \<open>
  \<^verbatim>\<open>int\<close> and \<^verbatim>\<open>float\<close> drop surrounding whitespace (tab, line feed, vertical tab, form
  feed, carriage return, space, NEL, no-break space), read an optional sign and then decimal
  digits, where single underscores may separate digits. Anything else is a \<^verbatim>\<open>ValueError\<close>,
  and so is, for \<^verbatim>\<open>int\<close>, a text with more than 4300 digits
  (\<^verbatim>\<open>sys.get_int_max_str_digits()\<close>); \<^verbatim>\<open>float\<close> has no such limit.
\<close>

definition max_str_digits :: nat where
  "max_str_digits = 4300"

definition is_space :: "char \<Rightarrow> bool" where
  "is_space c \<longleftrightarrow>
     c \<in> {CHR 0x09, CHR 0x0A, CHR 0x0B, CHR 0x0C, CHR 0x0D, CHR 0x20, CHR 0x85, CHR 0xA0}"

definition strip :: "string \<Rightarrow> string" where
  "strip s = rev (dropWhile is_space (rev (dropWhile is_space s)))"

definition digit_of :: "char \<Rightarrow> nat option" where
  "digit_of c = map_of (zip ''0123456789'' [0, 1, 2, 3, 4, 5, 6, 7, 8, 9]) c"

text \<open>
  \<open>digits_value acc s\<close> reads the rest of a digit part after a digit: the value read so far
  is \<open>acc\<close>; the whole of \<open>s\<close> must belong to the digit part.
\<close>

fun digits_value :: "nat \<Rightarrow> string \<Rightarrow> nat option" where
  "digits_value acc [] = Some acc"
| "digits_value acc [c] =
     (case digit_of c of Some d \<Rightarrow> Some (acc * 10 + d) | None \<Rightarrow> None)"
| "digits_value acc (c # c' # cs) =
     (case digit_of c of
        Some d \<Rightarrow> digits_value (acc * 10 + d) (c' # cs)
      | None \<Rightarrow>
          (if c = CHR ''_'' then
             (case digit_of c' of
                Some d \<Rightarrow> digits_value (acc * 10 + d) cs
              | None \<Rightarrow> None)
           else None))"

definition decimal_value :: "string \<Rightarrow> nat option" where
  "decimal_value s =
     (case s of
        [] \<Rightarrow> None
      | c # cs \<Rightarrow> (case digit_of c of Some d \<Rightarrow> digits_value d cs | None \<Rightarrow> None))"

definition digit_count :: "string \<Rightarrow> nat" where
  "digit_count s = length [c \<leftarrow> s. digit_of c \<noteq> None]"

definition int_of_str :: "string \<Rightarrow> int option" where
  "int_of_str s =
     (if max_str_digits < digit_count (strip s) then None
      else
        (case strip s of
           [] \<Rightarrow> None
         | c # cs \<Rightarrow>
             (if c = CHR ''-'' then map_option (\<lambda>n. - int n) (decimal_value cs)
              else if c = CHR ''+'' then map_option int (decimal_value cs)
              else map_option int (decimal_value (c # cs)))))"

text \<open>
  \<open>skip_digits s\<close> drops the rest of a digit part after a digit (the longest one), and
  \<open>skip_digitpart s\<close> drops a whole digit part, if \<open>s\<close> starts with one.
\<close>

fun skip_digits :: "string \<Rightarrow> string" where
  "skip_digits [] = []"
| "skip_digits [c] = (if digit_of c = None then [c] else [])"
| "skip_digits (c # c' # cs) =
     (if digit_of c \<noteq> None then skip_digits (c' # cs)
      else if c = CHR ''_'' \<and> digit_of c' \<noteq> None then skip_digits cs
      else c # c' # cs)"

definition skip_digitpart :: "string \<Rightarrow> string option" where
  "skip_digitpart s =
     (case s of
        [] \<Rightarrow> None
      | c # cs \<Rightarrow> (if digit_of c = None then None else Some (skip_digits cs)))"

definition exponent_ok :: "string \<Rightarrow> bool" where
  "exponent_ok s =
     (case s of
        [] \<Rightarrow> True
      | c # cs \<Rightarrow>
          (c = CHR ''e'' \<or> c = CHR ''E'') \<and>
          (case cs of
             [] \<Rightarrow> False
           | d # ds \<Rightarrow>
               skip_digitpart (if d = CHR ''+'' \<or> d = CHR ''-'' then ds else d # ds) = Some []))"

definition lower :: "char \<Rightarrow> char" where
  "lower c =
     (if c = CHR ''I'' then CHR ''i'' else if c = CHR ''N'' then CHR ''n''
      else if c = CHR ''F'' then CHR ''f'' else if c = CHR ''T'' then CHR ''t''
      else if c = CHR ''Y'' then CHR ''y'' else if c = CHR ''A'' then CHR ''a''
      else c)"

definition unsigned_float_literal :: "string \<Rightarrow> bool" where
  "unsigned_float_literal s \<longleftrightarrow>
     map lower s \<in> {''inf'', ''infinity'', ''nan''} \<or>
     (case s of
        [] \<Rightarrow> False
      | c # cs \<Rightarrow>
          (if c = CHR ''.'' then
             (case skip_digitpart cs of None \<Rightarrow> False | Some r \<Rightarrow> exponent_ok r)
           else
             (case skip_digitpart (c # cs) of
                None \<Rightarrow> False
              | Some r \<Rightarrow>
                  (case r of
                     [] \<Rightarrow> True
                   | p # ps \<Rightarrow>
                       (if p = CHR ''.'' then
                          (case skip_digitpart ps of
                             None \<Rightarrow> exponent_ok ps
                           | Some r' \<Rightarrow> exponent_ok r')
                        else exponent_ok (p # ps))))))"

definition float_literal :: "string \<Rightarrow> bool" where
  "float_literal s \<longleftrightarrow>
     (case s of
        [] \<Rightarrow> False
      | c # cs \<Rightarrow>
          (if c = CHR ''+'' \<or> c = CHR ''-'' then unsigned_float_literal cs
           else unsigned_float_literal (c # cs)))"

subsection \<open>\<^verbatim>\<open>str(v)\<close> and \<^verbatim>\<open>repr(v)\<close>\<close>

definition digit_char :: "nat \<Rightarrow> char" where
  "digit_char n = ''0123456789abcdef'' ! n"

function nat_digits :: "nat \<Rightarrow> string" where
  "nat_digits n = (if n < 10 then [digit_char n] else nat_digits (n div 10) @ [digit_char (n mod 10)])"
  by pat_completeness auto
termination
  by (relation "measure (\<lambda>n. n)") auto

declare nat_digits.simps [simp del]

definition int_str :: "int \<Rightarrow> string" where
  "int_str i = (if i < 0 then CHR ''-'' # nat_digits (nat (- i)) else nat_digits (nat i))"

text \<open>
  \<^verbatim>\<open>repr\<close> of a string: in single quotes unless the string has a single quote and no double
  quote; backslash, the enclosing quote, line feed, carriage return and tab are escaped with
  a backslash, the other unprintable code points as \<^verbatim>\<open>\xhh\<close>.
\<close>

definition printable :: "char \<Rightarrow> bool" where
  "printable c \<longleftrightarrow>
     (let n = (of_char c :: nat) in \<not> (n < 32 \<or> (127 \<le> n \<and> n \<le> 160) \<or> n = 173))"

definition escape_char :: "char \<Rightarrow> char \<Rightarrow> string" where
  "escape_char q c =
     (if c = CHR 0x5C then [CHR 0x5C, CHR 0x5C]
      else if c = q then [CHR 0x5C, q]
      else if c = CHR 0x0A then [CHR 0x5C, CHR ''n'']
      else if c = CHR 0x0D then [CHR 0x5C, CHR ''r'']
      else if c = CHR 0x09 then [CHR 0x5C, CHR ''t'']
      else if printable c then [c]
      else [CHR 0x5C, CHR ''x'', digit_char (of_char c div 16), digit_char (of_char c mod 16)])"

definition str_repr :: "string \<Rightarrow> string" where
  "str_repr s =
     (let q = (if CHR 0x27 \<in> set s \<and> CHR 0x22 \<notin> set s then CHR 0x22 else CHR 0x27)
      in [q] @ concat (map (escape_char q) s) @ [q])"

fun join :: "string \<Rightarrow> string list \<Rightarrow> string" where
  "join sep [] = []"
| "join sep [x] = x"
| "join sep (x # y # ys) = x @ sep @ join sep (y # ys)"

text \<open>A list comprehension, or any loop that collects, whose element expression may raise.\<close>

fun map_raising :: "('a \<Rightarrow> pyerr + 'b) \<Rightarrow> 'a list \<Rightarrow> pyerr + 'b list" where
  "map_raising f [] = Inr []"
| "map_raising f (x # xs) =
     (case f x of
        Inl e \<Rightarrow> Inl e
      | Inr y \<Rightarrow> (case map_raising f xs of Inl e \<Rightarrow> Inl e | Inr ys \<Rightarrow> Inr (y # ys)))"

text \<open>
  \<^verbatim>\<open>str\<close> of an integer: one of more than 4300 digits, that is of absolute value
  \<open>10 ^ 4300\<close> or more, is a \<^verbatim>\<open>ValueError\<close>.
\<close>

definition int_repr :: "int \<Rightarrow> pyerr + string" where
  "int_repr i = (if 10 ^ max_str_digits \<le> \<bar>i\<bar> then Inl ValueError else Inr (int_str i))"

text \<open>
  \<open>py_repr_at L depth v\<close> is \<^verbatim>\<open>repr(v)\<close> with \<open>depth\<close> calls of \<^verbatim>\<open>repr\<close> left before the
  recursion limit: every call takes one, that on an element of a container too, whatever the
  element is. The elements are printed in order and the first exception ends the call.
\<close>

fun py_repr_at :: "pylib \<Rightarrow> nat \<Rightarrow> pyval \<Rightarrow> pyerr + string" where
  "py_repr_at L 0 v = Inl RecursionError"
| "py_repr_at L (Suc depth) PNone = Inr ''None''"
| "py_repr_at L (Suc depth) (PBool b) = Inr (if b then ''True'' else ''False'')"
| "py_repr_at L (Suc depth) (PInt n) = int_repr n"
| "py_repr_at L (Suc depth) (PFloat f) = Inr (float_repr L f)"
| "py_repr_at L (Suc depth) (PStr s) = Inr (str_repr s)"
| "py_repr_at L (Suc depth) (PDatetime d) = Inr (datetime_repr L d)"
| "py_repr_at L (Suc depth) (PList xs) =
     (case map_raising (py_repr_at L depth) xs of
        Inl e \<Rightarrow> Inl e
      | Inr texts \<Rightarrow> Inr (''['' @ join '', '' texts @ '']''))"
| "py_repr_at L (Suc depth) (PTuple xs) =
     (case map_raising (py_repr_at L depth) xs of
        Inl e \<Rightarrow> Inl e
      | Inr texts \<Rightarrow>
          Inr (case texts of
                 [x] \<Rightarrow> ''('' @ x @ '',)''
               | _ \<Rightarrow> ''('' @ join '', '' texts @ '')''))"
| "py_repr_at L (Suc depth) (PDict kvs) =
     (case map_raising
             (\<lambda>kv. case py_repr_at L depth (fst kv) of
                     Inl e \<Rightarrow> Inl e
                   | Inr k \<Rightarrow>
                       (case py_repr_at L depth (snd kv) of
                          Inl e \<Rightarrow> Inl e
                        | Inr v \<Rightarrow> Inr (k @ '': '' @ v)))
             kvs of
        Inl e \<Rightarrow> Inl e
      | Inr texts \<Rightarrow> Inr (''{'' @ join '', '' texts @ ''}''))"
| "py_repr_at L (Suc depth) (PSet xs) =
     (case map_raising (py_repr_at L depth) xs of
        Inl e \<Rightarrow> Inl e
      | Inr texts \<Rightarrow> Inr (if xs = [] then ''set()'' else ''{'' @ join '', '' texts @ ''}''))"
| "py_repr_at L (Suc depth) (PModel n fs) = object_repr L depth n fs"
| "py_repr_at L (Suc depth) (PObject n fs) = object_repr L depth n fs"

definition py_repr :: "pylib \<Rightarrow> pyval \<Rightarrow> pyerr + string" where
  "py_repr L v = py_repr_at L (Suc (repr_depth L)) v"

text \<open>\<^verbatim>\<open>str(v)\<close>: a string is itself, a datetime has its own form, anything else its \<^verbatim>\<open>repr\<close>.\<close>

definition py_str :: "pylib \<Rightarrow> pyval \<Rightarrow> pyerr + string" where
  "py_str L v =
     (case v of
        PStr s \<Rightarrow> Inr s
      | PDatetime d \<Rightarrow> Inr (datetime_str L d)
      | _ \<Rightarrow> py_repr L v)"

subsection \<open>Truth values\<close>

text \<open>
  \<^verbatim>\<open>bool(v)\<close>: \<^verbatim>\<open>None\<close>, zero, the empty string and the empty containers are false. A
  float is zero when all its bits but the sign are; instances are true.
\<close>

fun truthy :: "pyval \<Rightarrow> bool" where
  "truthy PNone = False"
| "truthy (PBool b) = b"
| "truthy (PInt n) = (n \<noteq> 0)"
| "truthy (PFloat f) = (take_bit 63 f \<noteq> 0)"
| "truthy (PStr s) = (s \<noteq> [])"
| "truthy (PDatetime d) = True"
| "truthy (PList xs) = (xs \<noteq> [])"
| "truthy (PTuple xs) = (xs \<noteq> [])"
| "truthy (PDict kvs) = (kvs \<noteq> [])"
| "truthy (PSet xs) = (xs \<noteq> [])"
| "truthy (PModel n fs) = True"
| "truthy (PObject n fs) = True"

subsection \<open>Calling a class on a value\<close>

text \<open>
  \<^verbatim>\<open>int(v)\<close>: a string is parsed, a float truncated (\<^verbatim>\<open>OverflowError\<close> on an infinity,
  \<^verbatim>\<open>ValueError\<close> on a NaN, as the library reports), everything else that is not a
  number is a \<^verbatim>\<open>TypeError\<close>.
\<close>

fun py_int :: "pylib \<Rightarrow> pyval \<Rightarrow> pyerr + pyval" where
  "py_int L (PBool b) = Inr (PInt (if b then 1 else 0))"
| "py_int L (PInt n) = Inr (PInt n)"
| "py_int L (PFloat f) = (case int_of_float L f of Inl e \<Rightarrow> Inl e | Inr n \<Rightarrow> Inr (PInt n))"
| "py_int L (PStr s) = (case int_of_str s of None \<Rightarrow> Inl ValueError | Some n \<Rightarrow> Inr (PInt n))"
| "py_int L v = Inl TypeError"

text \<open>
  \<^verbatim>\<open>float(v)\<close>: an integer that rounds to \<open>2 ^ 1024\<close> or beyond, that is one of absolute
  value at least \<open>2 ^ 1024 - 2 ^ 970\<close>, is an \<^verbatim>\<open>OverflowError\<close> (int too large to convert
  to float); a string must be a float literal after stripping.
\<close>

fun py_float :: "pylib \<Rightarrow> pyval \<Rightarrow> pyerr + pyval" where
  "py_float L (PBool b) = Inr (PFloat (float_of_int L (if b then 1 else 0)))"
| "py_float L (PInt n) =
     (if 2 ^ 1024 - 2 ^ 970 \<le> \<bar>n\<bar> then Inl OverflowError else Inr (PFloat (float_of_int L n)))"
| "py_float L (PFloat f) = Inr (PFloat f)"
| "py_float L (PStr s) =
     (if float_literal (strip s) then Inr (PFloat (float_of_literal L (strip s)))
      else Inl ValueError)"
| "py_float L v = Inl TypeError"

text \<open>
  \<^verbatim>\<open>annotation(value)\<close>. \<^verbatim>\<open>str(value)\<close> returns or raises as \<^verbatim>\<open>str\<close> does on the value;
  \<^verbatim>\<open>bool\<close> accepts every value. \<^verbatim>\<open>NoneType\<close> takes no argument, a pydantic model takes
  keyword arguments only, and \<^verbatim>\<open>datetime\<close> needs year, month and day (\<^verbatim>\<open>cast_as\<close> never
  calls it): each is a \<^verbatim>\<open>TypeError\<close>.
\<close>

fun construct :: "pylib \<Rightarrow> pytype \<Rightarrow> pyval \<Rightarrow> pyerr + pyval" where
  "construct L TInt v = py_int L v"
| "construct L TFloat v = py_float L v"
| "construct L TStr v = (case py_str L v of Inl e \<Rightarrow> Inl e | Inr s \<Rightarrow> Inr (PStr s))"
| "construct L TBool v = Inr (PBool (truthy v))"
| "construct L TNoneType v = Inl TypeError"
| "construct L TDatetime v = Inl TypeError"
| "construct L (TModel m) v = Inl TypeError"

text \<open>
  \<^verbatim>\<open>dateutil.parser.parse(value)\<close>: only a string is parsed, any other value of the model
  is a \<^verbatim>\<open>TypeError\<close> (parser must be a string or character stream).
\<close>

fun parse :: "pylib \<Rightarrow> pyval \<Rightarrow> pyerr + pyval" where
  "parse L (PStr s) =
     (case dateutil_parse L s of Inl e \<Rightarrow> Inl e | Inr d \<Rightarrow> Inr (PDatetime d))"
| "parse L v = Inl TypeError"

section \<open>\<^verbatim>\<open>dydactic/cast.py\<close>\<close>

subsection \<open>\<^verbatim>\<open>cast_as\<close>\<close>

definition cast_as :: "pylib \<Rightarrow> pyval \<Rightarrow> pytype \<Rightarrow> pyerr + pyval" where
  "cast_as L value annotation =
     (if isinstance value annotation then Inr value
      else if annotation = TDatetime then parse L value
      else construct L annotation value)"

subsection \<open>Unions\<close>

fun is_union_type :: "annotation \<Rightarrow> bool" where
  "is_union_type (UnionOf ts) = True"
| "is_union_type (UnionType ts) = True"
| "is_union_type (Plain t) = False"

fun get_union_args :: "annotation \<Rightarrow> pyerr + pytype list" where
  "get_union_args (UnionOf ts) = Inr ts"
| "get_union_args (UnionType ts) = Inr ts"
| "get_union_args (Plain t) = Inl ValueError"

text \<open>
  One pass of the loop of \<^verbatim>\<open>cast_as_union\<close> over a member \<open>ty\<close> (the source's \<^verbatim>\<open>_type\<close>): the body returns a
  value, or appends the member to \<^verbatim>\<open>attempted_types\<close> and continues, or lets an exception
  through that its \<^verbatim>\<open>except (ValueError, TypeError, dateutil.parser.ParserError)\<close> does
  not catch.
\<close>

datatype member_outcome = Return pyval | Continue | Propagate pyerr

definition except_union :: "pyerr + pyval \<Rightarrow> member_outcome" where
  "except_union r =
     (case r of
        Inr v \<Rightarrow> Return v
      | Inl e \<Rightarrow> (if is_ValueError e \<or> is_TypeError e \<or> is_ParserError e then Continue
                  else Propagate e))"

definition try_member :: "pylib \<Rightarrow> pyval \<Rightarrow> pytype \<Rightarrow> member_outcome" where
  "try_member L value ty =
     (if isinstance value ty then Return value
      else if ty \<in> {TInt, TFloat, TStr, TBool} \<and> is_container value then
        (if is_list_or_tuple value \<and> length (elements value) = 1
         then except_union (cast_as L (elements value ! 0) ty)
         else Continue)
      else except_union (cast_as L value ty))"

text \<open>
  After the loop the \<^verbatim>\<open>TypeError\<close> is raised; its message holds \<^verbatim>\<open>repr(value)\<close>, so an
  exception of that \<^verbatim>\<open>repr\<close> is raised in its place.
\<close>

fun union_loop :: "pylib \<Rightarrow> pyval \<Rightarrow> pytype list \<Rightarrow> pytype list \<Rightarrow> pyerr + pyval" where
  "union_loop L value [] attempted_types =
     (case py_repr L value of
        Inl e \<Rightarrow> Inl e
      | Inr printed \<Rightarrow> Inl (UnionTypeError attempted_types))"
| "union_loop L value (ty # union_types) attempted_types =
     (case try_member L value ty of
        Return v \<Rightarrow> Inr v
      | Continue \<Rightarrow> union_loop L value union_types (attempted_types @ [ty])
      | Propagate e \<Rightarrow> Inl e)"

definition cast_as_union :: "pylib \<Rightarrow> pyval \<Rightarrow> annotation \<Rightarrow> pyerr + pyval" where
  "cast_as_union L value union_annotation =
     (case get_union_args union_annotation of
        Inl e \<Rightarrow> Inl e
      | Inr union_types \<Rightarrow> union_loop L value union_types [])"

definition cast_as_annotation :: "pylib \<Rightarrow> pyval \<Rightarrow> annotation \<Rightarrow> pyerr + pyval" where
  "cast_as_annotation L value annotation =
     (if is_union_type annotation then cast_as_union L value annotation
      else (case annotation of Plain t \<Rightarrow> cast_as L value t))"

subsection \<open>\<^verbatim>\<open>ValidationError\<close>\<close>

text \<open>
  \<^verbatim>\<open>ValidationError.__init__\<close> builds the message from every entry of \<open>errors\<close> in order,
  reading \<^verbatim>\<open>err['type'].__name__\<close>, \<^verbatim>\<open>err['input_type'].__name__\<close> and
  \<^verbatim>\<open>repr(err['input_value'])\<close>. The first exception there (an \<^verbatim>\<open>AttributeError\<close> for a
  \<^verbatim>\<open>type\<close> without a \<^verbatim>\<open>__name__\<close>, or what \<^verbatim>\<open>repr\<close> raises) leaves the constructor, and
  \<^verbatim>\<open>raise ValidationError(errors)\<close> raises it instead of the \<^verbatim>\<open>ValidationError\<close>.
\<close>

fun message_failure :: "pylib \<Rightarrow> (string \<times> error_info) list \<Rightarrow> pyerr option" where
  "message_failure L [] = None"
| "message_failure L ((field, err) # rest) =
     (if \<not> has_name (err_type err) then Some AttributeError
      else
        (case py_repr L (err_input_value err) of
           Inl e \<Rightarrow> Some e
         | Inr printed \<Rightarrow> message_failure L rest))"

definition raise_ValidationError :: "pylib \<Rightarrow> (string \<times> error_info) list \<Rightarrow> pyerr" where
  "raise_ValidationError L errors =
     (case message_failure L errors of Some e \<Rightarrow> e | None \<Rightarrow> ValidationError errors)"

subsection \<open>\<^verbatim>\<open>cast_to_annotated_class\<close>\<close>

text \<open>
  A class as the caster sees it: its name, its own \<^verbatim>\<open>__annotations__\<close> in declaration
  order, the pydantic model it is when it derives from \<^verbatim>\<open>BaseModel\<close>, the parameter names
  of its \<^verbatim>\<open>__init__\<close> after \<^verbatim>\<open>self\<close>, and what calling it with keyword arguments does.
\<close>

record pyclass =
  cls_name :: string
  cls_annotations :: "(string \<times> annotation) list"
  cls_model :: "pydantic_model option"
  init_params :: "string list"
  init :: "pydict \<Rightarrow> pyerr + pyval"

text \<open>
  A class that declares no \<^verbatim>\<open>__init__\<close> inherits \<^verbatim>\<open>object.__init__\<close>, whose signature
  is \<^verbatim>\<open>(self, /, *args, **kwargs)\<close> and which rejects every keyword argument.
\<close>

definition plain_class :: "string \<Rightarrow> (string \<times> annotation) list \<Rightarrow> pyclass" where
  "plain_class name anns =
     \<lparr>cls_name = name, cls_annotations = anns, cls_model = None,
      init_params = [''args'', ''kwargs''],
      init = (\<lambda>kw. if kw = [] then Inr (PObject name []) else Inl TypeError)\<rparr>"

text \<open>
  \<^verbatim>\<open>set(annotations.keys()) - set(d.keys())\<close>. A Python set has no specified order; the
  model lists the missing names in declaration order, each once. (Whether the constructor
  of the error raises does not depend on the order: the input value of a missing field is
  \<^verbatim>\<open>None\<close>, which always prints.)
\<close>

definition missing_keys :: "(string \<times> annotation) list \<Rightarrow> pydict \<Rightarrow> string list" where
  "missing_keys annotations d = remdups [key \<leftarrow> map fst annotations. key \<notin> set (map fst d)]"

definition missing_errors ::
  "(string \<times> annotation) list \<Rightarrow> string list \<Rightarrow> (string \<times> error_info) list" where
  "missing_errors annotations keys =
     map (\<lambda>key. (key, ErrorInfo (the (map_of annotations key)) PNone ''NoneType''
                        Missing_required_field)) keys"

text \<open>
  The body of the \<^verbatim>\<open>try\<close> for one field: a nested pydantic model validates a mapping,
  every other annotation goes to \<^verbatim>\<open>cast_as_annotation\<close>.
\<close>

definition cast_field :: "pylib \<Rightarrow> annotation \<Rightarrow> pyval \<Rightarrow> pyerr + pyval" where
  "cast_field L annotation value =
     (case annotation of
        Plain (TModel m) \<Rightarrow>
          (if is_dict value then
             (case model_validate m None None value of
                Inl e \<Rightarrow> Inl (PydanticValidationError (FromOracle e))
              | Inr inst \<Rightarrow> Inr inst)
           else cast_as_annotation L value annotation)
      | _ \<Rightarrow> cast_as_annotation L value annotation)"

text \<open>\<^verbatim>\<open>except (ValueError, TypeError, dateutil.parser.ParserError, KeyError)\<close>.\<close>

definition caught_by_caster :: "pyerr \<Rightarrow> bool" where
  "caught_by_caster e \<longleftrightarrow> is_ValueError e \<or> is_TypeError e \<or> is_ParserError e \<or> is_KeyError e"

text \<open>
  The loop \<^verbatim>\<open>for key, value in new_data.items()\<close>, over the items still to visit. An
  assignment \<^verbatim>\<open>new_data[key] = ...\<close> replaces the value of a key already present, so the
  items to come are those of \<open>d\<close>.
\<close>

fun cast_fields ::
  "pylib \<Rightarrow> (string \<times> annotation) list \<Rightarrow> pydict \<Rightarrow> pydict \<Rightarrow> (string \<times> error_info) list \<Rightarrow>
     pyerr + (pydict \<times> (string \<times> error_info) list)" where
  "cast_fields L annotations [] new_data errors = Inr (new_data, errors)"
| "cast_fields L annotations ((key, value) # items) new_data errors =
     (case map_of annotations key of
        None \<Rightarrow> cast_fields L annotations items new_data errors
      | Some annotation \<Rightarrow>
          (case cast_field L annotation value of
             Inr v \<Rightarrow> cast_fields L annotations items (AList.update key v new_data) errors
           | Inl e \<Rightarrow>
               (if caught_by_caster e then
                  cast_fields L annotations items new_data
                    (AList.update key
                       (ErrorInfo annotation value (type_name value) (Str_of (class_of e)))
                       errors)
                else Inl e)))"

text \<open>
  The instance built at the end. A pydantic class validates \<open>new_data\<close> and reports a failure
  against every declared field. Any other class is called with keyword arguments when one of
  its parameters is named in \<open>new_data\<close>, and whenever that is not done or ends in a
  \<^verbatim>\<open>TypeError\<close>, the instance is made by \<^verbatim>\<open>__new__\<close> and one \<^verbatim>\<open>setattr\<close> per item.
\<close>

definition model_failure_errors ::
  "(string \<times> annotation) list \<Rightarrow> pydict \<Rightarrow> (string \<times> error_info) list" where
  "model_failure_errors annotations new_data =
     map (\<lambda>(key, a).
            (key, ErrorInfo a
               (case map_of new_data key of None \<Rightarrow> PNone | Some v \<Rightarrow> v)
               (case map_of new_data key of None \<Rightarrow> ''NoneType'' | Some v \<Rightarrow> type_name v)
               (Str_of CPydanticValidationError)))
         annotations"

definition instantiate :: "pylib \<Rightarrow> pyclass \<Rightarrow> pydict \<Rightarrow> pyerr + pyval" where
  "instantiate L cls new_data =
     (case cls_model cls of
        Some m \<Rightarrow>
          (case model_validate m None None (to_pyval new_data) of
             Inr inst \<Rightarrow> Inr inst
           | Inl e \<Rightarrow>
               Inl (raise_ValidationError L
                      (model_failure_errors (cls_annotations cls) new_data)))
      | None \<Rightarrow>
          (if \<exists>param \<in> set (init_params cls).
                param \<in> {''**kwargs'', ''*args''} \<or> param \<in> set (map fst new_data)
           then
             (case init cls new_data of
                Inr inst \<Rightarrow> Inr inst
              | Inl e \<Rightarrow>
                  (if is_TypeError e then Inr (PObject (cls_name cls) new_data) else Inl e))
           else Inr (PObject (cls_name cls) new_data)))"

definition cast_to_annotated_class :: "pylib \<Rightarrow> pydict \<Rightarrow> pyclass \<Rightarrow> pyerr + pyval" where
  "cast_to_annotated_class L d cls =
     (let annotations = cls_annotations cls in
      if missing_keys annotations d \<noteq> [] then
        Inl (raise_ValidationError L (missing_errors annotations (missing_keys annotations d)))
      else
        (case cast_fields L annotations d d [] of
           Inl e \<Rightarrow> Inl e
         | Inr (new_data, errors) \<Rightarrow>
             (if errors \<noteq> [] then Inl (raise_ValidationError L errors)
              else instantiate L cls new_data)))"

section \<open>\<^verbatim>\<open>dydactic/transform.py\<close>\<close>

text \<open>
  A \<^verbatim>\<open>Transform\<close> whose \<^verbatim>\<open>field\<close> is \<^verbatim>\<open>None\<close> is record-level: its function takes
  the record and returns any object, a mapping or not. Otherwise it is field-level and its
  function takes the value of a field. A function may raise.
\<close>

datatype transform_result = ADict pydict | NotADict pyval

datatype transform =
    RecordTransform "pydict \<Rightarrow> pyerr + transform_result"
  | FieldTransform string "pyval \<Rightarrow> pyerr + pyval"

datatype transforms = TransformDict "(string \<times> transform) list" | TransformList "transform list"

text \<open>
  One transform applied to \<open>result\<close>. \<open>name\<close> is the field a field-level transform works
  on: the key \<^verbatim>\<open>field_name\<close> in a dict of transforms, \<^verbatim>\<open>transform.field\<close> in a list.
\<close>

fun apply_transform :: "transform \<Rightarrow> string \<Rightarrow> pydict \<Rightarrow> pyerr + pydict" where
  "apply_transform (RecordTransform func) name result =
     (case func result of
        Inl e \<Rightarrow> Inl e
      | Inr (ADict r) \<Rightarrow> Inr r
      | Inr (NotADict v) \<Rightarrow> Inl TransformShapeError)"
| "apply_transform (FieldTransform field func) name result =
     (case map_of result name of
        None \<Rightarrow> Inr result
      | Some v \<Rightarrow>
          (case func v of
             Inl e \<Rightarrow> Inl e
           | Inr w \<Rightarrow> Inr (AList.update name w result)))"

fun transform_field :: "transform \<Rightarrow> string" where
  "transform_field (RecordTransform func) = []"
| "transform_field (FieldTransform field func) = field"

fun apply_transform_dict :: "(string \<times> transform) list \<Rightarrow> pydict \<Rightarrow> pyerr + pydict" where
  "apply_transform_dict [] result = Inr result"
| "apply_transform_dict ((field_name, transform) # rest) result =
     (case apply_transform transform field_name result of
        Inl e \<Rightarrow> Inl e
      | Inr r \<Rightarrow> apply_transform_dict rest r)"

fun apply_transform_list :: "transform list \<Rightarrow> pydict \<Rightarrow> pyerr + pydict" where
  "apply_transform_list [] result = Inr result"
| "apply_transform_list (transform # rest) result =
     (case apply_transform transform (transform_field transform) result of
        Inl e \<Rightarrow> Inl e
      | Inr r \<Rightarrow> apply_transform_list rest r)"

definition apply_transforms :: "pydict \<Rightarrow> transforms option \<Rightarrow> pyerr + pydict" where
  "apply_transforms record transforms =
     (case transforms of
        None \<Rightarrow> Inr record
      | Some (TransformDict ts) \<Rightarrow> apply_transform_dict ts record
      | Some (TransformList ts) \<Rightarrow> apply_transform_list ts record)"

section \<open>\<^verbatim>\<open>dydactic/rules.py\<close>\<close>

record validation_rule =
  rule_field :: string
  rule_validator :: "pyval \<Rightarrow> pyerr + bool"
  rule_message :: string
  rule_priority :: int

text \<open>
  \<^verbatim>\<open>ValidationRule.validate\<close>: whether the value passes, and the message: empty, the
  rule's own, or the rule's own followed by the text of the exception the validator raised.
\<close>

datatype rule_msg = Msg string | MsgWithException string exn_class

definition rule_validate :: "validation_rule \<Rightarrow> pyval \<Rightarrow> bool \<times> rule_msg" where
  "rule_validate rule v =
     (case rule_validator rule v of
        Inr is_valid \<Rightarrow> (is_valid, if is_valid then Msg [] else Msg (rule_message rule))
      | Inl e \<Rightarrow> (False, MsgWithException (rule_message rule) (class_of e)))"

text \<open>
  \<^verbatim>\<open>RuleValidator.__init__\<close>: the rules sorted by priority (the sort is stable), those of
  field \<^verbatim>\<open>*\<close> as the record rules, the others grouped by field in order of first occurrence.
\<close>

definition sorted_rules :: "validation_rule list \<Rightarrow> validation_rule list" where
  "sorted_rules rules = sort_key rule_priority rules"

definition record_rules :: "validation_rule list \<Rightarrow> validation_rule list" where
  "record_rules rules = [rule \<leftarrow> sorted_rules rules. rule_field rule = ''*'']"

definition add_field_rule ::
  "(string \<times> validation_rule list) list \<Rightarrow> validation_rule \<Rightarrow> (string \<times> validation_rule list) list"
  where
  "add_field_rule groups rule =
     (if rule_field rule = ''*'' then groups
      else (case map_of groups (rule_field rule) of
              None \<Rightarrow> groups @ [(rule_field rule, [rule])]
            | Some rs \<Rightarrow> AList.update (rule_field rule) (rs @ [rule]) groups))"

definition field_rules :: "validation_rule list \<Rightarrow> (string \<times> validation_rule list) list" where
  "field_rules rules = foldl add_field_rule [] (sorted_rules rules)"

text \<open>
  An entry of the error dictionary of \<^verbatim>\<open>RuleValidator.validate\<close>; its \<^verbatim>\<open>type\<close> is always
  the string \<^verbatim>\<open>"ValidationRule"\<close>.
\<close>

datatype rule_error = RuleError (re_rule: string) (re_message: rule_msg) (re_input_value: pyval)

text \<open>
  The dictionary the rules read: a dict itself, the \<^verbatim>\<open>model_dump()\<close> of a model instance,
  the \<^verbatim>\<open>__dict__\<close> of another instance; any other value cannot be validated.
\<close>

fun rules_record_dict :: "pyval \<Rightarrow> (pyval \<times> pyval) list option" where
  "rules_record_dict (PDict kvs) = Some kvs"
| "rules_record_dict (PModel n fs) = Some (map (\<lambda>(k, v). (PStr k, v)) fs)"
| "rules_record_dict (PObject n fs) = Some (map (\<lambda>(k, v). (PStr k, v)) fs)"
| "rules_record_dict v = None"

definition check_record_rule ::
  "(pyval \<times> pyval) list \<Rightarrow> (string \<times> rule_error) list \<Rightarrow> validation_rule \<Rightarrow>
     (string \<times> rule_error) list" where
  "check_record_rule record_dict errors rule =
     (case rule_validate rule (PDict record_dict) of
        (is_valid, error_msg) \<Rightarrow>
          (if is_valid then errors
           else AList.update ''__record__''
                  (RuleError (rule_field rule) error_msg (PDict record_dict)) errors))"

definition check_field_rule ::
  "string \<Rightarrow> pyval \<Rightarrow> (string \<times> rule_error) list \<Rightarrow> validation_rule \<Rightarrow>
     (string \<times> rule_error) list" where
  "check_field_rule field_name v errors rule =
     (case rule_validate rule v of
        (is_valid, error_msg) \<Rightarrow>
          (if is_valid then errors
           else if field_name \<in> set (map fst errors) then errors
           else errors @ [(field_name, RuleError (rule_field rule) error_msg v)]))"

definition check_field_rules ::
  "(pyval \<times> pyval) list \<Rightarrow> (string \<times> rule_error) list \<Rightarrow> string \<times> validation_rule list \<Rightarrow>
     (string \<times> rule_error) list" where
  "check_field_rules record_dict errors entry =
     (case map_of record_dict (PStr (fst entry)) of
        None \<Rightarrow> errors
      | Some v \<Rightarrow> foldl (check_field_rule (fst entry) v) errors (snd entry))"

definition validate_rules :: "validation_rule list \<Rightarrow> pyval \<Rightarrow> (string \<times> rule_error) list" where
  "validate_rules rules record =
     (case rules_record_dict record of
        None \<Rightarrow> []
      | Some record_dict \<Rightarrow>
          foldl (check_field_rules record_dict)
            (foldl (check_record_rule record_dict) [] (record_rules rules))
            (field_rules rules))"

section \<open>\<^verbatim>\<open>dydactic/result.py\<close>, \<^verbatim>\<open>dydactic/record.py\<close>, \<^verbatim>\<open>dydactic/options.py\<close>\<close>

text \<open>
  A \<^verbatim>\<open>Record\<close>: a dict, an instance of a pydantic model, or another object with a
  \<^verbatim>\<open>__dict__\<close>. A \<^verbatim>\<open>Json\<close> is a text.
\<close>

datatype pyrecord = DictRecord pydict | ModelRecord string pydict | ObjectRecord string pydict

fun record_dict_of :: "pyrecord \<Rightarrow> pydict" where
  "record_dict_of (DictRecord d) = d"
| "record_dict_of (ModelRecord n fs) = fs"
| "record_dict_of (ObjectRecord n fs) = fs"

fun record_to_pyval :: "pyrecord \<Rightarrow> pyval" where
  "record_to_pyval (DictRecord d) = to_pyval d"
| "record_to_pyval (ModelRecord n fs) = PModel n fs"
| "record_to_pyval (ObjectRecord n fs) = PObject n fs"

fun is_dict_record :: "pyrecord \<Rightarrow> bool" where
  "is_dict_record (DictRecord d) = True"
| "is_dict_record r = False"

datatype record_validation_result =
  RecordValidationResult (rv_error: "pydantic_error option") (rv_result: "pyval option")
    (rv_value: pyrecord)

datatype json_validation_result =
  JsonValidationResult (jv_error: "pydantic_error option") (jv_result: "pyval option")
    (jv_value: string)

datatype error_option = RETURN | RAISE | SKIP

section \<open>\<^verbatim>\<open>dydactic/hooks.py\<close>\<close>

text \<open>
  A callback is known by what it does to the state \<open>'s\<close> of the caller. A hook that raises
  is caught and ignored by the \<^verbatim>\<open>call_\<close> methods, so all that is left of it is the state it
  leaves; for \<^verbatim>\<open>should_continue\<close> the answer \<open>None\<close> stands for a raised exception.
\<close>

record 's validation_hooks =
  before_validate :: "(pyrecord \<Rightarrow> 's \<Rightarrow> 's) option"
  after_validate :: "(record_validation_result \<Rightarrow> 's \<Rightarrow> 's) option"
  on_success :: "(record_validation_result \<Rightarrow> 's \<Rightarrow> 's) option"
  on_error :: "(record_validation_result \<Rightarrow> 's \<Rightarrow> 's) option"
  should_continue :: "(record_validation_result \<Rightarrow> 's \<Rightarrow> bool option \<times> 's) option"

definition call_before_validate :: "'s validation_hooks \<Rightarrow> pyrecord \<Rightarrow> 's \<Rightarrow> 's" where
  "call_before_validate hooks record s =
     (case before_validate hooks of None \<Rightarrow> s | Some f \<Rightarrow> f record s)"

definition call_after_validate ::
  "'s validation_hooks \<Rightarrow> record_validation_result \<Rightarrow> 's \<Rightarrow> 's" where
  "call_after_validate hooks result s =
     (case after_validate hooks of None \<Rightarrow> s | Some f \<Rightarrow> f result s)"

definition call_on_success ::
  "'s validation_hooks \<Rightarrow> record_validation_result \<Rightarrow> 's \<Rightarrow> 's" where
  "call_on_success hooks result s =
     (case on_success hooks of
        None \<Rightarrow> s
      | Some f \<Rightarrow> (if rv_error result = None then f result s else s))"

definition call_on_error ::
  "'s validation_hooks \<Rightarrow> record_validation_result \<Rightarrow> 's \<Rightarrow> 's" where
  "call_on_error hooks result s =
     (case on_error hooks of
        None \<Rightarrow> s
      | Some f \<Rightarrow> (if rv_error result \<noteq> None then f result s else s))"

definition check_should_continue ::
  "'s validation_hooks \<Rightarrow> record_validation_result \<Rightarrow> 's \<Rightarrow> bool \<times> 's" where
  "check_should_continue hooks result s =
     (case should_continue hooks of
        None \<Rightarrow> (True, s)
      | Some f \<Rightarrow> (case f result s of (Some b, s') \<Rightarrow> (b, s') | (None, s') \<Rightarrow> (True, s')))"

section \<open>\<^verbatim>\<open>dydactic/validate.py\<close>\<close>

subsection \<open>\<^verbatim>\<open>validate_record\<close>\<close>

text \<open>
  The \<^verbatim>\<open>model\<close> argument: an instance of a pydantic model, a pydantic model class, or any
  other class, which is read through its annotations.
\<close>

datatype model = PydanticInstance pydantic_model | PydanticClass pydantic_model | AnnotatedClass pyclass

definition filter_record_fields :: "pydict \<Rightarrow> string list \<Rightarrow> pydict" where
  "filter_record_fields record field_list = [(k, v) \<leftarrow> record. k \<in> set field_list]"

fun project_model_fields :: "pyval \<Rightarrow> string list \<Rightarrow> pydict" where
  "project_model_fields (PModel n fs) field_list = [(k, v) \<leftarrow> fs. k \<in> set field_list]"
| "project_model_fields (PObject n fs) field_list = [(k, v) \<leftarrow> fs. k \<in> set field_list]"
| "project_model_fields v field_list = []"

text \<open>The keyword arguments that \<^verbatim>\<open>validate_record\<close> and \<^verbatim>\<open>validate_records\<close> share.\<close>

record config =
  opt_from_attributes :: "bool option"
  opt_strict :: "bool option"
  opt_fields :: "string list option"
  opt_project_fields :: "string list option"
  opt_transforms :: "transforms option"
  opt_rules :: "validation_rule list option"

fun is_model_instance :: "pyval \<Rightarrow> bool" where
  "is_model_instance (PModel n fs) = True"
| "is_model_instance v = False"

text \<open>\<^verbatim>\<open>model.__name__ if isinstance(model, type) else "Unknown"\<close>.\<close>

fun model_title :: "model \<Rightarrow> string" where
  "model_title (PydanticInstance m) = ''Unknown''"
| "model_title (PydanticClass m) = model_name m"
| "model_title (AnnotatedClass cls) = cls_name cls"

text \<open>
  The \<^verbatim>\<open>try\<close> block. The oracle's failure is a \<^verbatim>\<open>pydantic.ValidationError\<close>. When a rule
  fails, \<^verbatim>\<open>raise ValidationError(rule_errors)\<close> does not get as far as raising it: building
  the message reads \<^verbatim>\<open>err['type'].__name__\<close>, and the \<^verbatim>\<open>type\<close> of a rule entry is a string,
  so the constructor ends in an \<^verbatim>\<open>AttributeError\<close>.
\<close>

definition validate_model :: "pylib \<Rightarrow> pydict \<Rightarrow> model \<Rightarrow> 'a config_scheme \<Rightarrow> pyerr + pyval" where
  "validate_model L record_dict model cfg =
     (case model of
        PydanticInstance m \<Rightarrow>
          (case model_validate m (opt_from_attributes cfg) (opt_strict cfg) (to_pyval record_dict) of
             Inl e \<Rightarrow> Inl (PydanticValidationError (FromOracle e))
           | Inr inst \<Rightarrow> Inr inst)
      | PydanticClass m \<Rightarrow>
          (case model_validate m (opt_from_attributes cfg) (opt_strict cfg) (to_pyval record_dict) of
             Inl e \<Rightarrow> Inl (PydanticValidationError (FromOracle e))
           | Inr inst \<Rightarrow> Inr inst)
      | AnnotatedClass cls \<Rightarrow> cast_to_annotated_class L record_dict cls)"

definition check_rules :: "'a config_scheme \<Rightarrow> pyval \<Rightarrow> pyerr + pyval" where
  "check_rules cfg validated_record =
     (case opt_rules cfg of
        None \<Rightarrow> Inr validated_record
      | Some rules \<Rightarrow>
          (if validate_rules rules validated_record \<noteq> [] then Inl AttributeError
           else Inr validated_record))"

definition project_result :: "'a config_scheme \<Rightarrow> pyval \<Rightarrow> pyval" where
  "project_result cfg validated_record =
     (case opt_project_fields cfg of
        None \<Rightarrow> validated_record
      | Some project_fields \<Rightarrow>
          (if is_model_instance validated_record
           then PObject ''ProjectedResult'' (project_model_fields validated_record project_fields)
           else validated_record))"

definition validate_try :: "pylib \<Rightarrow> pydict \<Rightarrow> model \<Rightarrow> 'a config_scheme \<Rightarrow> pyerr + pyval" where
  "validate_try L record_dict model cfg =
     (case validate_model L record_dict model cfg of
        Inl e \<Rightarrow> Inl e
      | Inr validated_record \<Rightarrow>
          (case check_rules cfg validated_record of
             Inl e \<Rightarrow> Inl e
           | Inr checked \<Rightarrow> Inr (project_result cfg checked)))"

text \<open>The line errors that \<^verbatim>\<open>validate_record\<close> builds from the entries of the caster's error.\<close>

definition to_line_errors :: "(string \<times> error_info) list \<Rightarrow> line_error list" where
  "to_line_errors errors =
     map (\<lambda>(field, error_info). LineError Type_error [field] (err_input_value error_info)) errors"

text \<open>
  \<^verbatim>\<open>pydantic.ValidationError.from_exception_data(title, line_errors)\<close> of pydantic 2 converts
  the line errors in order and looks the \<^verbatim>\<open>type\<close> of each up in its table of error types.
  \<^verbatim>\<open>"type_error"\<close> is not in the table: a \<^verbatim>\<open>KeyError\<close> (invalid error type).
  \<^verbatim>\<open>"value_error"\<close> is, but it requires the raised error in a \<^verbatim>\<open>ctx\<close>, which the package
  does not pass: a \<^verbatim>\<open>TypeError\<close>. With no line error the call returns an error without
  entries.
\<close>

fun from_exception_data :: "string \<Rightarrow> line_error list \<Rightarrow> pyerr + pydantic_error" where
  "from_exception_data title [] = Inr (FromExceptionData title [])"
| "from_exception_data title (line_error # rest) =
     (case le_type line_error of
        Type_error \<Rightarrow> Inl KeyError
      | Value_error \<Rightarrow> Inl TypeError)"

text \<open>
  \<^verbatim>\<open>validate_record\<close>. The transforms and the field filter run before the \<^verbatim>\<open>try\<close>, so what
  they raise leaves the function whatever \<open>raise_errors\<close> is. The three handlers follow:
  \<^verbatim>\<open>pydantic.ValidationError\<close>, the caster's \<^verbatim>\<open>ValidationError\<close>, then \<^verbatim>\<open>Exception\<close>.
  The second converts the caster's error with \<^verbatim>\<open>from_exception_data\<close> whether
  \<open>raise_errors\<close> is set or not, the third does so when it is not set; an exception of that
  call is raised inside the handler and leaves the function.
\<close>

definition validate_record ::
  "pylib \<Rightarrow> pyrecord \<Rightarrow> model \<Rightarrow> 'a config_scheme \<Rightarrow> bool \<Rightarrow> pyerr + record_validation_result"
  where
  "validate_record L record model cfg raise_errors =
     (let original_record = record in
      case apply_transforms (record_dict_of record) (opt_transforms cfg) of
        Inl e \<Rightarrow> Inl e
      | Inr transformed \<Rightarrow>
          (let record_dict =
                 (case opt_fields cfg of
                    None \<Rightarrow> transformed
                  | Some field_list \<Rightarrow> filter_record_fields transformed field_list)
           in case validate_try L record_dict model cfg of
                Inr validated_record \<Rightarrow>
                  Inr (RecordValidationResult None (Some validated_record) original_record)
              | Inl (PydanticValidationError e) \<Rightarrow>
                  (if raise_errors then Inl (PydanticValidationError e)
                   else Inr (RecordValidationResult (Some e) None original_record))
              | Inl (ValidationError errors) \<Rightarrow>
                  (case from_exception_data (model_title model) (to_line_errors errors) of
                     Inl e \<Rightarrow> Inl e
                   | Inr pydantic_error \<Rightarrow>
                       (if raise_errors then Inl (PydanticValidationError pydantic_error)
                        else Inr (RecordValidationResult (Some pydantic_error) None
                                    original_record)))
              | Inl e \<Rightarrow>
                  (if raise_errors then Inl e
                   else
                     (case from_exception_data (model_title model)
                             [LineError Value_error [] (record_to_pyval original_record)] of
                        Inl e' \<Rightarrow> Inl e'
                      | Inr pydantic_error \<Rightarrow>
                          Inr (RecordValidationResult (Some pydantic_error) None
                                 original_record)))))"

subsection \<open>\<^verbatim>\<open>validate_json\<close>\<close>

definition validate_json ::
  "string \<Rightarrow> pydantic_model \<Rightarrow> bool option \<Rightarrow> bool \<Rightarrow> pyerr + json_validation_result" where
  "validate_json json model strict raise_errors =
     (case model_validate_json model strict json of
        Inl e \<Rightarrow>
          (if raise_errors then Inl (PydanticValidationError (FromOracle e))
           else Inr (JsonValidationResult (Some (FromOracle e)) None json))
      | Inr validated_record \<Rightarrow> Inr (JsonValidationResult None (Some validated_record) json))"

subsection \<open>\<^verbatim>\<open>validate_records\<close>\<close>

text \<open>
  The remaining arguments of \<^verbatim>\<open>validate_records\<close>. The progress callback, like a hook, is
  known by what it does to the state of the caller; what it raises is ignored.
\<close>

record 's stream_options = config +
  opt_error_option :: error_option
  opt_on_progress :: "(nat \<Rightarrow> nat option \<Rightarrow> record_validation_result \<Rightarrow> 's \<Rightarrow> 's) option"
  opt_hooks :: "'s validation_hooks option"
  opt_bulk :: bool

text \<open>
  The argument \<^verbatim>\<open>records\<close>: a list, or an iterator with the items it has still to give.
  \<^verbatim>\<open>list(records)\<close> returns the items and leaves an iterator with none.
\<close>

datatype source = ListSource "pyrecord list" | IterSource "pyrecord list"

fun source_items :: "source \<Rightarrow> pyrecord list" where
  "source_items (ListSource xs) = xs"
| "source_items (IterSource xs) = xs"

fun consumed :: "source \<Rightarrow> source" where
  "consumed (ListSource xs) = ListSource xs"
| "consumed (IterSource xs) = IterSource []"

text \<open>
  The body of the loop \<^verbatim>\<open>for record in records\<close> of the individual validation, for the
  record at position \<open>index\<close> and the state \<open>s\<close> of the caller: it yields a result, skips the
  record, breaks out of the loop, or raises.
\<close>

datatype 's item_outcome =
    ItemYield record_validation_result 's
  | ItemSkip 's
  | ItemBreak 's
  | ItemRaise pyerr 's

definition process_record ::
  "pylib \<Rightarrow> model \<Rightarrow> 's stream_options \<Rightarrow> nat \<Rightarrow> nat option \<Rightarrow> pyrecord \<Rightarrow> 's \<Rightarrow> 's item_outcome"
  where
  "process_record L model opts index total' record s =
     (let s1 = (case opt_hooks opts of
                  None \<Rightarrow> s
                | Some hooks \<Rightarrow> call_before_validate hooks record s)
      in case validate_record L record model opts (opt_error_option opts = RAISE) of
           Inl e \<Rightarrow> ItemRaise e s1
         | Inr record_result \<Rightarrow>
             (case (case opt_hooks opts of
                      None \<Rightarrow> (True, s1)
                    | Some hooks \<Rightarrow>
                        check_should_continue hooks record_result
                          (call_on_error hooks record_result
                             (call_on_success hooks record_result
                                (call_after_validate hooks record_result s1))))
              of (go_on, s2) \<Rightarrow>
                (if \<not> go_on then ItemBreak s2
                 else
                   (let s3 = (case opt_on_progress opts of
                                None \<Rightarrow> s2
                              | Some on_progress \<Rightarrow> on_progress index total' record_result s2)
                    in if rv_error record_result \<noteq> None \<and> opt_error_option opts = SKIP
                       then ItemSkip s3
                       else ItemYield record_result s3))))"

text \<open>Bulk validation is tried for a pydantic model class under \<^verbatim>\<open>RETURN\<close> only.\<close>

fun can_use_bulk :: "model \<Rightarrow> error_option \<Rightarrow> bool" where
  "can_use_bulk (PydanticClass m) error_option = (error_option = RETURN)"
| "can_use_bulk model error_option = False"

text \<open>
  \<^verbatim>\<open>TypeAdapter(list[model]).validate_python(records_list, strict=strict)\<close>: the oracle's
  bulk entry point validates every mapping and fails as a whole when one fails.
\<close>

fun validate_python :: "pydantic_model \<Rightarrow> bool option \<Rightarrow> pydict list \<Rightarrow> oracle_error + pyval list" where
  "validate_python m strict [] = Inr []"
| "validate_python m strict (d # ds) =
     (case model_validate m None strict (to_pyval d) of
        Inl e \<Rightarrow> Inl e
      | Inr inst \<Rightarrow>
          (case validate_python m strict ds of
             Inl e \<Rightarrow> Inl e
           | Inr insts \<Rightarrow> Inr (inst # insts)))"

text \<open>
  The body of the loop over the models that bulk validation returned: it yields a result,
  returns from the generator (the \<^verbatim>\<open>should_continue\<close> hook), or raises an exception, which
  the enclosing \<^verbatim>\<open>except Exception: pass\<close> catches.
\<close>

datatype 's bulk_outcome =
    BulkYield record_validation_result 's
  | BulkReturn 's
  | BulkExcept pyerr 's

definition bulk_item ::
  "'s stream_options \<Rightarrow> nat \<Rightarrow> nat \<Rightarrow> pyval \<Rightarrow> pydict \<Rightarrow> 's \<Rightarrow> 's bulk_outcome" where
  "bulk_item opts idx total_count validated_model record_dict s =
     (if (case opt_rules opts of
            None \<Rightarrow> False
          | Some rules \<Rightarrow> validate_rules rules validated_model \<noteq> [])
      then BulkExcept AttributeError s
      else
        (let projected_model =
               (case opt_project_fields opts of
                  None \<Rightarrow> validated_model
                | Some project_fields \<Rightarrow>
                    PObject ''ProjectedResult'' (project_model_fields validated_model project_fields));
             result = RecordValidationResult None (Some projected_model) (DictRecord record_dict)
         in case (case opt_hooks opts of
                    None \<Rightarrow> (True, s)
                  | Some hooks \<Rightarrow>
                      check_should_continue hooks result
                        (call_on_error hooks result
                           (call_on_success hooks result (call_after_validate hooks result s))))
            of (go_on, s1) \<Rightarrow>
              (if \<not> go_on then BulkReturn s1
               else BulkYield result
                      (case opt_on_progress opts of
                         None \<Rightarrow> s1
                       | Some on_progress \<Rightarrow> on_progress idx (Some total_count) result s1))))"

text \<open>
  The generator. Calling \<^verbatim>\<open>validate_records\<close> runs nothing; the first \<^verbatim>\<open>next\<close> runs the
  function from its start. A started generator is suspended at the \<^verbatim>\<open>yield\<close> of the bulk
  loop (with the models and records still to come, the position, the total), at the
  \<^verbatim>\<open>yield\<close> of the individual loop (with the records still to come, \<open>index\<close>, \<open>total'\<close>),
  or it has finished. Each state records what is left of the caller's \<^verbatim>\<open>records\<close>.
\<close>

datatype started =
    InBulk "(pyval \<times> pydict) list" nat nat source
  | InLoop "pyrecord list" nat "nat option" source
  | Finished source

datatype gen_state = NotStarted source | Started started

datatype step = Yield record_validation_result | StopIteration | Raise pyerr

text \<open>
  The individual validation from its first line, for the current \<^verbatim>\<open>records\<close>:
  \<^verbatim>\<open>records_list = list(records) if not isinstance(records, list) else records\<close>, then
  \<open>total'\<close> is its length and the loop starts at index 0.
\<close>

definition individual :: "pyrecord list \<Rightarrow> source \<Rightarrow> started" where
  "individual records_list src = InLoop records_list 0 (Some (length records_list)) src"

text \<open>
  The function from its start to the first loop. With bulk validation requested and usable
  the input is materialized; an empty input returns; records that are not all dicts go to
  the individual validation of the materialized list. Otherwise the transforms and the field
  filter are applied to every record. An exception there is caught by
  \<^verbatim>\<open>except Exception: pass\<close> and the individual validation starts from \<^verbatim>\<open>records\<close> as it
  then is: the list, or the iterator that \<^verbatim>\<open>list(records)\<close> has emptied. When the bulk
  validation itself fails, the individual validation runs on \<^verbatim>\<open>iter(records_list)\<close>, the
  transformed and filtered records.
\<close>

definition start :: "pylib \<Rightarrow> model \<Rightarrow> 's stream_options \<Rightarrow> source \<Rightarrow> started" where
  "start L model opts records =
     (if opt_bulk opts \<and> can_use_bulk model (opt_error_option opts) then
        (let records_list = source_items records; src = consumed records in
         if records_list = [] then Finished src
         else if \<not> list_all is_dict_record records_list then individual records_list src
         else
           (case map_raising (\<lambda>r. apply_transforms (record_dict_of r) (opt_transforms opts))
                   records_list of
              Inl e \<Rightarrow> individual (source_items src) (consumed src)
            | Inr transformed \<Rightarrow>
                (let filtered =
                       (case opt_fields opts of
                          None \<Rightarrow> transformed
                        | Some field_list \<Rightarrow>
                            map (\<lambda>r. filter_record_fields r field_list) transformed)
                 in case model of
                      PydanticClass m \<Rightarrow>
                        (case validate_python m (opt_strict opts) filtered of
                           Inl e \<Rightarrow> individual (map DictRecord filtered) src
                         | Inr validated_models \<Rightarrow>
                             InBulk (zip validated_models filtered) 0 (length filtered) src)
                    | _ \<Rightarrow> individual (source_items src) (consumed src))))
      else individual (source_items records) (consumed records))"

text \<open>The individual loop up to its next \<^verbatim>\<open>yield\<close>, and run to its end.\<close>

fun loop_next ::
  "pylib \<Rightarrow> model \<Rightarrow> 's stream_options \<Rightarrow> nat option \<Rightarrow> source \<Rightarrow> pyrecord list \<Rightarrow> nat \<Rightarrow> 's \<Rightarrow>
     step \<times> started \<times> 's" where
  "loop_next L model opts total' src [] index s = (StopIteration, Finished src, s)"
| "loop_next L model opts total' src (record # rest) index s =
     (case process_record L model opts index total' record s of
        ItemYield record_result s' \<Rightarrow> (Yield record_result, InLoop rest (Suc index) total' src, s')
      | ItemSkip s' \<Rightarrow> loop_next L model opts total' src rest (Suc index) s'
      | ItemBreak s' \<Rightarrow> (StopIteration, Finished src, s')
      | ItemRaise e s' \<Rightarrow> (Raise e, Finished src, s'))"

fun loop_run ::
  "pylib \<Rightarrow> model \<Rightarrow> 's stream_options \<Rightarrow> nat option \<Rightarrow> pyrecord list \<Rightarrow> nat \<Rightarrow> 's \<Rightarrow>
     record_validation_result list \<times> pyerr option \<times> 's" where
  "loop_run L model opts total' [] index s = ([], None, s)"
| "loop_run L model opts total' (record # rest) index s =
     (case process_record L model opts index total' record s of
        ItemYield record_result s' \<Rightarrow>
          (case loop_run L model opts total' rest (Suc index) s' of
             (results, raised, s'') \<Rightarrow> (record_result # results, raised, s''))
      | ItemSkip s' \<Rightarrow> loop_run L model opts total' rest (Suc index) s'
      | ItemBreak s' \<Rightarrow> ([], None, s')
      | ItemRaise e s' \<Rightarrow> ([], Some e, s'))"

text \<open>
  The bulk loop up to its next \<^verbatim>\<open>yield\<close>, and run to its end. After the loop the function
  returns. An exception in the loop is passed over and the individual validation starts from
  \<^verbatim>\<open>records\<close> as it then is.
\<close>

fun bulk_next ::
  "pylib \<Rightarrow> model \<Rightarrow> 's stream_options \<Rightarrow> nat \<Rightarrow> source \<Rightarrow> (pyval \<times> pydict) list \<Rightarrow> nat \<Rightarrow> 's \<Rightarrow>
     step \<times> started \<times> 's" where
  "bulk_next L model opts total_count src [] idx s = (StopIteration, Finished src, s)"
| "bulk_next L model opts total_count src ((validated_model, record_dict) # rest) idx s =
     (case bulk_item opts idx total_count validated_model record_dict s of
        BulkYield result s' \<Rightarrow> (Yield result, InBulk rest (Suc idx) total_count src, s')
      | BulkReturn s' \<Rightarrow> (StopIteration, Finished src, s')
      | BulkExcept e s' \<Rightarrow>
          loop_next L model opts (Some (length (source_items src))) (consumed src) (source_items src) 0 s')"

fun bulk_run ::
  "pylib \<Rightarrow> model \<Rightarrow> 's stream_options \<Rightarrow> nat \<Rightarrow> source \<Rightarrow> (pyval \<times> pydict) list \<Rightarrow> nat \<Rightarrow> 's \<Rightarrow>
     record_validation_result list \<times> pyerr option \<times> 's" where
  "bulk_run L model opts total_count src [] idx s = ([], None, s)"
| "bulk_run L model opts total_count src ((validated_model, record_dict) # rest) idx s =
     (case bulk_item opts idx total_count validated_model record_dict s of
        BulkYield result s' \<Rightarrow>
          (case bulk_run L model opts total_count src rest (Suc idx) s' of
             (results, raised, s'') \<Rightarrow> (result # results, raised, s''))
      | BulkReturn s' \<Rightarrow> ([], None, s')
      | BulkExcept e s' \<Rightarrow> loop_run L model opts (Some (length (source_items src))) (source_items src) 0 s')"

text \<open>One \<^verbatim>\<open>next\<close> on the generator.\<close>

fun resume ::
  "pylib \<Rightarrow> model \<Rightarrow> 's stream_options \<Rightarrow> started \<Rightarrow> 's \<Rightarrow> step \<times> started \<times> 's" where
  "resume L model opts (InBulk rest idx total_count src) s =
     bulk_next L model opts total_count src rest idx s"
| "resume L model opts (InLoop rest index total' src) s =
     loop_next L model opts total' src rest index s"
| "resume L model opts (Finished src) s = (StopIteration, Finished src, s)"

definition validate_records :: "source \<Rightarrow> gen_state" where
  "validate_records records = NotStarted records"

fun gen_next ::
  "pylib \<Rightarrow> model \<Rightarrow> 's stream_options \<Rightarrow> gen_state \<Rightarrow> 's \<Rightarrow> step \<times> gen_state \<times> 's" where
  "gen_next L model opts (NotStarted records) s =
     (case resume L model opts (start L model opts records) s of
        (out, st, s') \<Rightarrow> (out, Started st, s'))"
| "gen_next L model opts (Started st) s =
     (case resume L model opts st s of (out, st', s') \<Rightarrow> (out, Started st', s'))"

text \<open>
  The generator run to its end, as \<^verbatim>\<open>list(validate_records(...))\<close> does: the results it
  yields, the exception that ends it if one does, and the state of the caller.
\<close>

fun run_started ::
  "pylib \<Rightarrow> model \<Rightarrow> 's stream_options \<Rightarrow> started \<Rightarrow> 's \<Rightarrow>
     record_validation_result list \<times> pyerr option \<times> 's" where
  "run_started L model opts (InBulk rest idx total_count src) s =
     bulk_run L model opts total_count src rest idx s"
| "run_started L model opts (InLoop rest index total' src) s =
     loop_run L model opts total' rest index s"
| "run_started L model opts (Finished src) s = ([], None, s)"

fun run ::
  "pylib \<Rightarrow> model \<Rightarrow> 's stream_options \<Rightarrow> gen_state \<Rightarrow> 's \<Rightarrow>
     record_validation_result list \<times> pyerr option \<times> 's" where
  "run L model opts (NotStarted records) s = run_started L model opts (start L model opts records) s"
| "run L model opts (Started st) s = run_started L model opts st s"

fun source_left :: "gen_state \<Rightarrow> source" where
  "source_left (NotStarted records) = records"
| "source_left (Started (InBulk rest idx total_count src)) = src"
| "source_left (Started (InLoop rest index total' src)) = src"
| "source_left (Started (Finished src)) = src"

section \<open>Definitions used to state the properties of the caster\<close>

text \<open>
  A library instance for closed examples, with 100 levels left for \<^verbatim>\<open>repr\<close>. No example
  below depends on what its functions return.
\<close>

definition lib0 :: pylib where
  "lib0 = \<lparr>float_of_int = (\<lambda>n. 0), float_of_literal = (\<lambda>s. 0),
     int_of_float = (\<lambda>f. Inl OverflowError), float_repr = (\<lambda>f. ''0.0''),
     dateutil_parse = (\<lambda>s. Inl ParserError), datetime_str = (\<lambda>d. []),
     datetime_repr = (\<lambda>d. []), object_repr = (\<lambda>depth n fs. Inr n), repr_depth = 100\<rparr>"

text \<open>
  What one item of the input contributes: the error entry of a declared field whose coercion
  fails, and the item as it stands in \<open>new_data\<close> after the loop.
\<close>

definition field_failure ::
  "pylib \<Rightarrow> (string \<times> annotation) list \<Rightarrow> string \<times> pyval \<Rightarrow> error_info option" where
  "field_failure L annotations item =
     (case map_of annotations (fst item) of
        None \<Rightarrow> None
      | Some annotation \<Rightarrow>
          (case cast_field L annotation (snd item) of
             Inr v \<Rightarrow> None
           | Inl e \<Rightarrow>
               Some (ErrorInfo annotation (snd item) (type_name (snd item))
                       (Str_of (class_of e)))))"

definition field_errors ::
  "pylib \<Rightarrow> (string \<times> annotation) list \<Rightarrow> pydict \<Rightarrow> (string \<times> error_info) list" where
  "field_errors L annotations d =
     List.map_filter
       (\<lambda>item. map_option (\<lambda>info. (fst item, info)) (field_failure L annotations item)) d"

definition coerced ::
  "pylib \<Rightarrow> (string \<times> annotation) list \<Rightarrow> string \<times> pyval \<Rightarrow> string \<times> pyval" where
  "coerced L annotations item =
     (case map_of annotations (fst item) of
        None \<Rightarrow> item
      | Some annotation \<Rightarrow>
          (case cast_field L annotation (snd item) of
             Inr v \<Rightarrow> (fst item, v)
           | Inl e \<Rightarrow> item))"

text \<open>Every declared field of \<open>d\<close> whose coercion fails does so with an exception the caster catches.\<close>

definition failures_caught :: "pylib \<Rightarrow> (string \<times> annotation) list \<Rightarrow> pydict \<Rightarrow> bool" where
  "failures_caught L annotations d \<longleftrightarrow>
     list_all
       (\<lambda>item. case map_of annotations (fst item) of
                 None \<Rightarrow> True
               | Some annotation \<Rightarrow>
                   (case cast_field L annotation (snd item) of
                      Inr v \<Rightarrow> True
                    | Inl e \<Rightarrow> caught_by_caster e)) d"

text \<open>The class of the specification's examples: \<^verbatim>\<open>id: int\<close>, \<^verbatim>\<open>name: str\<close>, \<^verbatim>\<open>age: float\<close>.\<close>

definition Person :: pyclass where
  "Person = plain_class ''Person''
     [(''id'', Plain TInt), (''name'', Plain TStr), (''age'', Plain TFloat)]"

text \<open>
  The class of the package's own test of unions, \<^verbatim>\<open>class Config: value: int | str\<close>, and the
  same class with the annotation written \<^verbatim>\<open>typing.Union[int, str]\<close>.
\<close>

definition Config :: pyclass where
  "Config = plain_class ''Config'' [(''value'', UnionType [TInt, TStr])]"

definition TypingConfig :: pyclass where
  "TypingConfig = plain_class ''Config'' [(''value'', UnionOf [TInt, TStr])]"

text \<open>
  Plain data: \<^verbatim>\<open>None\<close>, booleans, integers of at most 4300 digits, floats, strings, datetimes
  and the containers of plain data. \<open>nesting v\<close> is the number of levels of containers below
  \<open>v\<close>: 0 for a scalar and for an empty container, 1 for \<^verbatim>\<open>[1, 2]\<close>.
\<close>

fun plain_data :: "pyval \<Rightarrow> bool" where
  "plain_data (PInt n) = (\<bar>n\<bar> < 10 ^ max_str_digits)"
| "plain_data (PList xs) = list_all plain_data xs"
| "plain_data (PTuple xs) = list_all plain_data xs"
| "plain_data (PDict kvs) = list_all (\<lambda>kv. plain_data (fst kv) \<and> plain_data (snd kv)) kvs"
| "plain_data (PSet xs) = list_all plain_data xs"
| "plain_data (PModel n fs) = False"
| "plain_data (PObject n fs) = False"
| "plain_data v = True"

fun nesting :: "pyval \<Rightarrow> nat" where
  "nesting (PList xs) = foldr max (map (\<lambda>x. Suc (nesting x)) xs) 0"
| "nesting (PTuple xs) = foldr max (map (\<lambda>x. Suc (nesting x)) xs) 0"
| "nesting (PDict kvs) =
     foldr max (map (\<lambda>kv. Suc (max (nesting (fst kv)) (nesting (snd kv)))) kvs) 0"
| "nesting (PSet xs) = foldr max (map (\<lambda>x. Suc (nesting x)) xs) 0"
| "nesting v = 0"


section \<open>Definitions used to state the properties of the pipeline\<close>

text \<open>The default arguments of \<^verbatim>\<open>validate_records\<close>.\<close>

definition default_options :: "'s stream_options" where
  "default_options =
     \<lparr>opt_from_attributes = None, opt_strict = None, opt_fields = None,
      opt_project_fields = None, opt_transforms = None, opt_rules = None,
      opt_error_option = RETURN, opt_on_progress = None, opt_hooks = None, opt_bulk = False\<rparr>"

text \<open>No \<^verbatim>\<open>should_continue\<close> hook is set, so no hook stops the iteration.\<close>

definition never_stops :: "'s stream_options \<Rightarrow> bool" where
  "never_stops opts \<longleftrightarrow>
     (case opt_hooks opts of None \<Rightarrow> True | Some hooks \<Rightarrow> should_continue hooks = None)"

text \<open>A progress callback that appends its arguments to a log, the state of the caller.\<close>

definition log_progress ::
  "nat \<Rightarrow> nat option \<Rightarrow> record_validation_result \<Rightarrow>
     (nat \<times> nat option \<times> record_validation_result) list \<Rightarrow>
     (nat \<times> nat option \<times> record_validation_result) list" where
  "log_progress index total' result log = log @ [(index, total', result)]"

text \<open>Hooks with a \<^verbatim>\<open>before_validate\<close> callback that counts its invocations.\<close>

definition counting_hooks :: "nat validation_hooks" where
  "counting_hooks =
     \<lparr>before_validate = Some (\<lambda>record n. Suc n), after_validate = None, on_success = None,
      on_error = None, should_continue = None\<rparr>"

text \<open>
  Three records for the class \<open>Person\<close>, which is not a pydantic model: the first and the
  third are valid, the second has an \<^verbatim>\<open>id\<close> that is no integer. The ages are the floats
  30.0, 25.5 and 35.0.
\<close>

definition alice :: pyrecord where
  "alice = DictRecord
     [(''id'', PInt 1), (''name'', PStr ''Alice''), (''age'', PFloat 0x403E000000000000)]"

definition bob :: pyrecord where
  "bob = DictRecord
     [(''id'', PStr ''invalid''), (''name'', PStr ''Bob''), (''age'', PFloat 0x4039800000000000)]"

definition charlie :: pyrecord where
  "charlie = DictRecord
     [(''id'', PInt 3), (''name'', PStr ''Charlie''), (''age'', PFloat 0x4041800000000000)]"

definition alice_result :: record_validation_result where
  "alice_result = RecordValidationResult None
     (Some (PObject ''Person''
        [(''id'', PInt 1), (''name'', PStr ''Alice''), (''age'', PFloat 0x403E000000000000)]))
     alice"

text \<open>The error of the caster on the second record: \<^verbatim>\<open>int("invalid")\<close> is a \<^verbatim>\<open>ValueError\<close>.\<close>

definition bob_failure :: pyerr where
  "bob_failure = ValidationError
     [(''id'', ErrorInfo (Plain TInt) (PStr ''invalid'') ''str'' (Str_of CValueError))]"

definition charlie_result :: record_validation_result where
  "charlie_result = RecordValidationResult None
     (Some (PObject ''Person''
        [(''id'', PInt 3), (''name'', PStr ''Charlie''), (''age'', PFloat 0x4041800000000000)]))
     charlie"

text \<open>
  A pydantic model without declared fields that allows extra ones: every mapping validates,
  to an instance with the items of the mapping under string keys.
\<close>

definition OpenModel :: pydantic_model where
  "OpenModel =
     PydanticModel ''OpenModel''
       (\<lambda>from_attributes strict v.
          case v of
            PDict kvs \<Rightarrow>
              Inr (PModel ''OpenModel''
                     (concat (map (\<lambda>(k, x). case k of PStr n \<Rightarrow> [(n, x)] | _ \<Rightarrow> []) kvs)))
          | _ \<Rightarrow> Inl (OracleError 0))
       (\<lambda>strict json. Inl (OracleError 0))"

text \<open>
  A pydantic model class with the one field \<^verbatim>\<open>id\<close>, known by its oracle: it accepts a
  mapping whose \<^verbatim>\<open>id\<close> is an integer and rejects every other value. Three records for it,
  the second one invalid, and their results.
\<close>

definition IdModel :: pydantic_model where
  "IdModel =
     PydanticModel ''IdModel''
       (\<lambda>from_attributes strict v.
          case v of
            PDict kvs \<Rightarrow>
              (case map_of kvs (PStr ''id'') of
                 Some (PInt n) \<Rightarrow> Inr (PModel ''IdModel'' [(''id'', PInt n)])
               | _ \<Rightarrow> Inl (OracleError 0))
          | _ \<Rightarrow> Inl (OracleError 0))
       (\<lambda>strict json. Inl (OracleError 0))"

definition first_id :: pyrecord where
  "first_id = DictRecord [(''id'', PInt 1)]"

definition invalid_id :: pyrecord where
  "invalid_id = DictRecord [(''id'', PStr ''invalid'')]"

definition third_id :: pyrecord where
  "third_id = DictRecord [(''id'', PInt 3)]"

definition first_id_result :: record_validation_result where
  "first_id_result =
     RecordValidationResult None (Some (PModel ''IdModel'' [(''id'', PInt 1)])) first_id"

definition invalid_id_result :: record_validation_result where
  "invalid_id_result = RecordValidationResult (Some (FromOracle (OracleError 0))) None invalid_id"

definition third_id_result :: record_validation_result where
  "third_id_result =
     RecordValidationResult None (Some (PModel ''IdModel'' [(''id'', PInt 3)])) third_id"

text \<open>A record-level transform that returns the integer 5, and a field-level one that returns 0.\<close>

definition bad_transform :: transform where
  "bad_transform = RecordTransform (\<lambda>record. Inr (NotADict (PInt 5)))"

definition zero_transform :: transform where
  "zero_transform = FieldTransform ''a'' (\<lambda>v. Inr (PInt 0))"

text \<open>What is left of the caller's \<^verbatim>\<open>records\<close> in a started generator.\<close>

fun started_source :: "started \<Rightarrow> source" where
  "started_source (InBulk rest idx total_count src) = src"
| "started_source (InLoop rest index total' src) = src"
| "started_source (Finished src) = src"

section \<open>Properties of the coercion engine and the union resolver\<close>

lemma int_of_str_5: "int_of_str ''5'' = Some 5"
  by (simp add: int_of_str_def strip_def is_space_def decimal_value_def digit_of_def
      digit_count_def max_str_digits_def)

lemma int_of_str_x: "int_of_str ''x'' = None"
  by (simp add: int_of_str_def strip_def is_space_def decimal_value_def digit_of_def
      digit_count_def max_str_digits_def)

lemma int_of_str_hello: "int_of_str ''hello'' = None"
  by (simp add: int_of_str_def strip_def is_space_def decimal_value_def digit_of_def
      digit_count_def max_str_digits_def)

lemma float_literal_y: "float_literal (strip ''y'') = False"
  by (simp add: float_literal_def unsigned_float_literal_def skip_digitpart_def strip_def
      is_space_def digit_of_def lower_def)

text \<open>An integer up to \<open>2 ^ 1024\<close> in absolute value has fewer than 4300 digits and prints.\<close>

lemma small_int: "\<bar>i\<bar> \<le> 2 ^ 1024 \<Longrightarrow> \<bar>i :: int\<bar> < 10 ^ max_str_digits"
proof -
  assume a: "\<bar>i\<bar> \<le> 2 ^ 1024"
  have "(2::int) ^ 1024 \<le> 10 ^ 1024" by (rule power_mono) simp_all
  also have "\<dots> < 10 ^ max_str_digits"
    unfolding max_str_digits_def by (rule power_strict_increasing) simp_all
  finally show ?thesis using a by linarith
qed

lemma int_repr_small: "\<bar>i\<bar> \<le> 2 ^ 1024 \<Longrightarrow> int_repr i = Inr (int_str i)"
  using small_int [of i] by (simp add: int_repr_def)

lemma int_repr_large: "int_repr (10 ^ max_str_digits) = Inl ValueError"
  by (simp add: int_repr_def)

text \<open>The equations of \<open>py_repr_at\<close> at a depth written as a numeral.\<close>

lemma py_repr_at_numeral [simp]:
  "py_repr_at L (numeral k) PNone = Inr ''None''"
  "py_repr_at L (numeral k) (PBool b) = Inr (if b then ''True'' else ''False'')"
  "py_repr_at L (numeral k) (PInt n) = int_repr n"
  "py_repr_at L (numeral k) (PFloat f) = Inr (float_repr L f)"
  "py_repr_at L (numeral k) (PStr s) = Inr (str_repr s)"
  "py_repr_at L (numeral k) (PDatetime d) = Inr (datetime_repr L d)"
  "py_repr_at L (numeral k) (PList xs) =
     (case map_raising (py_repr_at L (pred_numeral k)) xs of
        Inl e \<Rightarrow> Inl e
      | Inr texts \<Rightarrow> Inr (''['' @ join '', '' texts @ '']''))"
  "py_repr_at L (numeral k) (PTuple xs) =
     (case map_raising (py_repr_at L (pred_numeral k)) xs of
        Inl e \<Rightarrow> Inl e
      | Inr texts \<Rightarrow>
          Inr (case texts of
                 [x] \<Rightarrow> ''('' @ x @ '',)''
               | _ \<Rightarrow> ''('' @ join '', '' texts @ '')''))"
  "py_repr_at L (numeral k) (PSet xs) =
     (case map_raising (py_repr_at L (pred_numeral k)) xs of
        Inl e \<Rightarrow> Inl e
      | Inr texts \<Rightarrow> Inr (if xs = [] then ''set()'' else ''{'' @ join '', '' texts @ ''}''))"
  "py_repr_at L (numeral k) (PDict kvs) =
     (case map_raising
             (\<lambda>kv. case py_repr_at L (pred_numeral k) (fst kv) of
                     Inl e \<Rightarrow> Inl e
                   | Inr key \<Rightarrow>
                       (case py_repr_at L (pred_numeral k) (snd kv) of
                          Inl e \<Rightarrow> Inl e
                        | Inr v \<Rightarrow> Inr (key @ '': '' @ v)))
             kvs of
        Inl e \<Rightarrow> Inl e
      | Inr texts \<Rightarrow> Inr (''{'' @ join '', '' texts @ ''}''))"
  "py_repr_at L (numeral k) (PModel name fs) = object_repr L (pred_numeral k) name fs"
  "py_repr_at L (numeral k) (PObject name fs) = object_repr L (pred_numeral k) name fs"
  by (simp_all add: numeral_eq_Suc)

lemma repr_depth_lib0: "repr_depth lib0 = 100"
  by (simp add: lib0_def)

lemma py_repr_None: "py_repr L PNone = Inr ''None''"
  by (simp add: py_repr_def)

lemma py_repr_PStr: "py_repr L (PStr s) = Inr (str_repr s)"
  by (simp add: py_repr_def)

lemma py_repr_PInt: "py_repr L (PInt n) = int_repr n"
  by (simp add: py_repr_def)

lemma union_loop_skip:
  "\<forall>t \<in> set pre. try_member L v t = Continue \<Longrightarrow>
     union_loop L v (pre @ ts) att = union_loop L v ts (att @ pre)"
  by (induction pre arbitrary: att) simp_all

lemma cast_as_union_list_5_int_str:
  "cast_as_union L (PList [PStr ''5'']) (UnionOf [TInt, TStr]) = Inr (PInt 5)"
  by (simp add: cast_as_union_def try_member_def cast_as_def except_union_def int_of_str_5)

lemma cast_as_union_list_5_str_int:
  "cast_as_union L (PList [PStr ''5'']) (UnionOf [TStr, TInt]) = Inr (PStr ''5'')"
  by (simp add: cast_as_union_def try_member_def cast_as_def except_union_def py_str_def)

lemma cast_as_union_syntax:
  "cast_as_union L v (UnionType union_types) = cast_as_union L v (UnionOf union_types)"
  by (simp add: cast_as_union_def)

text \<open>
  What the loop of \<^verbatim>\<open>cast_as_union\<close> does, for either way of writing the union. It walks
  the members in declared order and passes over a member when its pass of the loop ends in
  \<open>Continue\<close>: a scalar kind facing a container that is not a one-element list or tuple, or
  a coercion that raised \<^verbatim>\<open>ValueError\<close>, \<^verbatim>\<open>TypeError\<close> or \<^verbatim>\<open>ParserError\<close>. The result is
  the outcome of the first member not passed over, whatever the later members are: the value
  it returned (the value itself on a type match, the coerced value otherwise), or the
  exception of another class that its coercion raised. When every member is passed over the
  result is the \<^verbatim>\<open>TypeError\<close> that lists them all, or what \<^verbatim>\<open>repr(value)\<close> raises while its
  message is built. \<^verbatim>\<open>["5"]\<close> gives the int 5 with \<^verbatim>\<open>Union[int, str]\<close> and the str
  \<^verbatim>\<open>"5"\<close> with \<^verbatim>\<open>Union[str, int]\<close>.
\<close>

lemma cast_as_union_first_member:
  "((\<forall>t \<in> set pre. try_member L val t = Continue) \<longrightarrow> try_member L val ty = Return v \<longrightarrow>
      cast_as_union L val (UnionOf (pre @ ty # post)) = Inr v) \<and>
   ((\<forall>t \<in> set pre. try_member L val t = Continue) \<longrightarrow> try_member L val ty = Propagate e \<longrightarrow>
      cast_as_union L val (UnionOf (pre @ ty # post)) = Inl e) \<and>
   ((\<forall>t \<in> set union_types. try_member L val t = Continue) \<longrightarrow>
      cast_as_union L val (UnionOf union_types) =
        (case py_repr L val of
           Inl e' \<Rightarrow> Inl e'
         | Inr printed \<Rightarrow> Inl (UnionTypeError union_types))) \<and>
   cast_as_union L val (UnionType union_types) = cast_as_union L val (UnionOf union_types) \<and>
   cast_as_union L (PList [PStr ''5'']) (UnionOf [TInt, TStr]) = Inr (PInt 5) \<and>
   cast_as_union L (PList [PStr ''5'']) (UnionOf [TStr, TInt]) = Inr (PStr ''5'')"
proof (intro conjI impI)
  assume pre: "\<forall>t \<in> set pre. try_member L val t = Continue"
    and ty: "try_member L val ty = Return v"
  show "cast_as_union L val (UnionOf (pre @ ty # post)) = Inr v"
    using union_loop_skip [OF pre, of "ty # post" "[]"] ty by (simp add: cast_as_union_def)
next
  assume pre: "\<forall>t \<in> set pre. try_member L val t = Continue"
    and ty: "try_member L val ty = Propagate e"
  show "cast_as_union L val (UnionOf (pre @ ty # post)) = Inl e"
    using union_loop_skip [OF pre, of "ty # post" "[]"] ty by (simp add: cast_as_union_def)
next
  assume all: "\<forall>t \<in> set union_types. try_member L val t = Continue"
  show "cast_as_union L val (UnionOf union_types) =
          (case py_repr L val of
             Inl e' \<Rightarrow> Inl e'
           | Inr printed \<Rightarrow> Inl (UnionTypeError union_types))"
    using union_loop_skip [OF all, of "[]" "[]"] by (simp add: cast_as_union_def)
next
  show "cast_as_union L val (UnionType union_types) = cast_as_union L val (UnionOf union_types)"
    by (rule cast_as_union_syntax)
next
  show "cast_as_union L (PList [PStr ''5'']) (UnionOf [TInt, TStr]) = Inr (PInt 5)"
    by (rule cast_as_union_list_5_int_str)
next
  show "cast_as_union L (PList [PStr ''5'']) (UnionOf [TStr, TInt]) = Inr (PStr ''5'')"
    by (rule cast_as_union_list_5_str_int)
qed

text \<open>
  The lemma at \<^verbatim>\<open>"hello"\<close> and \<^verbatim>\<open>Union[int, str, float]\<close>: \<^verbatim>\<open>int("hello")\<close> is a
  \<^verbatim>\<open>ValueError\<close>, so \<^verbatim>\<open>int\<close> is passed over, \<^verbatim>\<open>str\<close> matches and \<^verbatim>\<open>float\<close> is never
  consulted.
\<close>

lemma cast_as_union_hello:
  "try_member lib0 (PStr ''hello'') TInt = Continue \<and>
   try_member lib0 (PStr ''hello'') TStr = Return (PStr ''hello'') \<and>
   cast_as_union lib0 (PStr ''hello'') (UnionOf [TInt, TStr, TFloat]) = Inr (PStr ''hello'')"
proof -
  have h1: "try_member lib0 (PStr ''hello'') TInt = Continue"
    by (simp add: try_member_def cast_as_def except_union_def int_of_str_hello
        is_ValueError_def)
  have h2: "try_member lib0 (PStr ''hello'') TStr = Return (PStr ''hello'')"
    by (simp add: try_member_def)
  show ?thesis
    using h1 h2
      cast_as_union_first_member [where pre = "[TInt]" and L = lib0 and val = "PStr ''hello''"
        and ty = TStr and v = "PStr ''hello''" and post = "[TFloat]"]
    by simp
qed

text \<open>
  C1 does not hold of the code. For the int \<open>2 ^ 1024\<close> and \<^verbatim>\<open>Union[float, str]\<close> the
  first member that matches or coerces the value is \<^verbatim>\<open>str\<close>: \<^verbatim>\<open>cast_as\<close> to \<^verbatim>\<open>float\<close>
  fails and \<^verbatim>\<open>cast_as\<close> to \<^verbatim>\<open>str\<close> returns the decimal text. Yet \<^verbatim>\<open>cast_as_union\<close> does
  not return that text: the failure of \<^verbatim>\<open>float(2 ** 1024)\<close> is an \<^verbatim>\<open>OverflowError\<close>, which
  the handler of the loop, \<^verbatim>\<open>except (ValueError, TypeError, dateutil.parser.ParserError)\<close>,
  does not catch, so the call raises it and \<^verbatim>\<open>str\<close> is never tried.
\<close>

theorem union_overflow_escapes:
  "cast_as_union lib0 (PInt (2 ^ 1024)) (UnionOf [TFloat, TStr]) = Inl OverflowError \<and>
   cast_as lib0 (PInt (2 ^ 1024)) TFloat = Inl OverflowError \<and>
   cast_as lib0 (PInt (2 ^ 1024)) TStr = Inr (PStr (int_str (2 ^ 1024)))"
proof -
  have s: "int_repr (2 ^ 1024) = Inr (int_str (2 ^ 1024))"
    by (rule int_repr_small) simp
  show ?thesis
    using s
    by (simp add: cast_as_union_def try_member_def cast_as_def except_union_def py_str_def
        py_repr_PInt is_ValueError_def is_TypeError_def is_ParserError_def)
qed



lemma map_raising_ok:
  "(\<And>x. x \<in> set xs \<Longrightarrow> \<exists>y. f x = Inr y) \<Longrightarrow> \<exists>ys. map_raising f xs = Inr ys"
proof (induction xs)
  case Nil
  then show ?case by simp
next
  case (Cons x xs)
  from Cons.prems [of x] obtain y where y: "f x = Inr y" by auto
  from Cons.IH Cons.prems obtain ys where ys: "map_raising f xs = Inr ys" by auto
  show ?case by (simp add: y ys)
qed

lemma foldr_max_ge: "x \<in> set xs \<Longrightarrow> f x \<le> foldr max (map f xs) (0::nat)"
  by (induction xs) (auto simp: max_def)

text \<open>Plain data that is nested no deeper than the levels that are left prints.\<close>

lemma plain_data_prints:
  "plain_data v \<Longrightarrow> nesting v < depth \<Longrightarrow> \<exists>s. py_repr_at L depth v = Inr s"
proof (induction depth arbitrary: v)
  case 0
  then show ?case by simp
next
  case (Suc depth)
  have elem: "\<exists>s. py_repr_at L depth x = Inr s"
    if "x \<in> set xs" "list_all plain_data xs"
      "foldr max (map (\<lambda>x. Suc (nesting x)) xs) 0 < Suc depth" for x xs
  proof -
    have "Suc (nesting x) \<le> foldr max (map (\<lambda>x. Suc (nesting x)) xs) 0"
      using foldr_max_ge [OF that(1), of "\<lambda>x. Suc (nesting x)"] .
    then have "nesting x < depth" using that(3) by simp
    moreover have "plain_data x" using that(1,2) by (simp add: list_all_iff)
    ultimately show ?thesis by (rule Suc.IH [rotated])
  qed
  show ?case
  proof (cases v)
    case (PInt n)
    then show ?thesis using Suc.prems by (simp add: int_repr_def)
  next
    case (PList xs)
    have "\<exists>ys. map_raising (py_repr_at L depth) xs = Inr ys"
      using elem [of _ xs] Suc.prems PList by (intro map_raising_ok) simp
    then show ?thesis using PList by auto
  next
    case (PTuple xs)
    have "\<exists>ys. map_raising (py_repr_at L depth) xs = Inr ys"
      using elem [of _ xs] Suc.prems PTuple by (intro map_raising_ok) simp
    then show ?thesis using PTuple by auto
  next
    case (PSet xs)
    have "\<exists>ys. map_raising (py_repr_at L depth) xs = Inr ys"
      using elem [of _ xs] Suc.prems PSet by (intro map_raising_ok) simp
    then show ?thesis using PSet by auto
  next
    case (PDict kvs)
    let ?f = "\<lambda>kv. case py_repr_at L depth (fst kv) of
                     Inl e \<Rightarrow> Inl e
                   | Inr k \<Rightarrow>
                       (case py_repr_at L depth (snd kv) of
                          Inl e \<Rightarrow> Inl e
                        | Inr v \<Rightarrow> Inr (k @ '': '' @ v))"
    have item: "\<exists>y. ?f kv = Inr y" if kv: "kv \<in> set kvs" for kv
    proof -
      have b: "Suc (max (nesting (fst kv)) (nesting (snd kv))) \<le>
               foldr max (map (\<lambda>kv. Suc (max (nesting (fst kv)) (nesting (snd kv)))) kvs) 0"
        using foldr_max_ge [OF kv, of "\<lambda>kv. Suc (max (nesting (fst kv)) (nesting (snd kv)))"] .
      then have n: "nesting (fst kv) < depth" "nesting (snd kv) < depth"
        using Suc.prems(2) PDict by simp_all
      have p: "plain_data (fst kv)" "plain_data (snd kv)"
        using Suc.prems(1) PDict kv by (simp_all add: list_all_iff)
      from Suc.IH [OF p(1) n(1)] obtain a where a: "py_repr_at L depth (fst kv) = Inr a" by auto
      from Suc.IH [OF p(2) n(2)] obtain b where b: "py_repr_at L depth (snd kv) = Inr b" by auto
      show ?thesis by (simp add: a b)
    qed
    have "\<exists>ys. map_raising ?f kvs = Inr ys"
      by (rule map_raising_ok) (rule item)
    then show ?thesis using PDict by auto
  qed (use Suc.prems in simp_all)
qed

text \<open>
  C10, as the code has it. Outside a union there is no container guard: for a list, tuple,
  dict or set \<open>v\<close>, \<^verbatim>\<open>cast_as(v, str)\<close> does what \<^verbatim>\<open>str(v)\<close> does, which for a container
  is its \<^verbatim>\<open>repr\<close>, also when it has a single element: it returns the text when \<^verbatim>\<open>str(v)\<close>
  returns and raises what \<^verbatim>\<open>str(v)\<close> raises. \<^verbatim>\<open>str(v)\<close> returns whenever \<open>v\<close> is plain data
  (no integer of more than 4300 digits, no instance) nested no deeper than \<^verbatim>\<open>repr\<close> can
  descend. \<^verbatim>\<open>cast_as(v, bool)\<close> is the truth value of \<open>v\<close>, which is whether \<open>v\<close> has an
  element, and never raises. \<^verbatim>\<open>cast_as_annotation\<close> does the same.
\<close>

theorem plain_cast_of_container:
  assumes "is_container v"
  shows "cast_as L v TStr = (case py_str L v of Inl e \<Rightarrow> Inl e | Inr s \<Rightarrow> Inr (PStr s)) \<and>
         py_str L v = py_repr L v \<and>
         (plain_data v \<and> nesting v \<le> repr_depth L \<longrightarrow>
            (\<exists>s. py_str L v = Inr s \<and> cast_as L v TStr = Inr (PStr s))) \<and>
         cast_as L v TBool = Inr (PBool (truthy v)) \<and>
         cast_as_annotation L v (Plain TStr) = cast_as L v TStr \<and>
         cast_as_annotation L v (Plain TBool) = Inr (PBool (truthy v)) \<and>
         truthy v = (v \<notin> {PList [], PTuple [], PDict [], PSet []})"
proof -
  have a: "cast_as L v TStr = (case py_str L v of Inl e \<Rightarrow> Inl e | Inr s \<Rightarrow> Inr (PStr s))"
    and b: "py_str L v = py_repr L v"
    and c: "cast_as L v TBool = Inr (PBool (truthy v))"
    and d: "cast_as_annotation L v (Plain TStr) = cast_as L v TStr"
    and e: "cast_as_annotation L v (Plain TBool) = Inr (PBool (truthy v))"
    and f: "truthy v = (v \<notin> {PList [], PTuple [], PDict [], PSet []})"
    using assms by (cases v; simp add: cast_as_def cast_as_annotation_def py_str_def)+
  have g: "\<exists>s. py_str L v = Inr s \<and> cast_as L v TStr = Inr (PStr s)"
    if "plain_data v \<and> nesting v \<le> repr_depth L"
  proof -
    from that have "nesting v < Suc (repr_depth L)" by simp
    with that plain_data_prints [of v "Suc (repr_depth L)" L]
    obtain s where "py_repr L v = Inr s" by (auto simp: py_repr_def)
    then show ?thesis by (simp add: a b)
  qed
  from a b c d e f g show ?thesis by blast
qed

text \<open>The theorem at \<^verbatim>\<open>[1, 2]\<close>: the string \<^verbatim>\<open>"[1, 2]"\<close> and \<^verbatim>\<open>True\<close>.\<close>

theorem plain_cast_of_container_witness:
  "is_container (PList [PInt 1, PInt 2]) \<and>
   plain_data (PList [PInt 1, PInt 2]) \<and> nesting (PList [PInt 1, PInt 2]) \<le> repr_depth lib0 \<and>
   cast_as lib0 (PList [PInt 1, PInt 2]) TStr = Inr (PStr ''[1, 2]'') \<and>
   cast_as lib0 (PList [PInt 1, PInt 2]) TBool = Inr (PBool True)"
proof -
  have c: "is_container (PList [PInt 1, PInt 2])" by simp
  have p: "plain_data (PList [PInt 1, PInt 2])"
    using small_int [of 1] small_int [of 2] by simp
  have n: "nesting (PList [PInt 1, PInt 2]) \<le> repr_depth lib0"
    by (simp add: repr_depth_lib0)
  have s: "py_repr lib0 (PList [PInt 1, PInt 2]) = Inr ''[1, 2]''"
    by (simp add: py_repr_def repr_depth_lib0 int_repr_small int_str_def nat_digits.simps
        digit_char_def)
  show ?thesis
    using plain_cast_of_container [OF c, of lib0] p n s by simp
qed

text \<open>
  C10 as stated fails at a list that holds the integer \<open>10 ^ 4300\<close>, which has 4301 digits:
  \<^verbatim>\<open>str\<close> of the list raises the \<^verbatim>\<open>ValueError\<close> of the integer's conversion to text, and so
  do \<^verbatim>\<open>cast_as\<close> and \<^verbatim>\<open>cast_as_annotation\<close> with \<^verbatim>\<open>str\<close>.
\<close>

theorem plain_cast_of_long_int_counterexample:
  "is_container (PList [PInt (10 ^ max_str_digits)]) \<and>
   cast_as lib0 (PList [PInt (10 ^ max_str_digits)]) TStr = Inl ValueError \<and>
   cast_as_annotation lib0 (PList [PInt (10 ^ max_str_digits)]) (Plain TStr) = Inl ValueError"
  by (simp add: cast_as_def cast_as_annotation_def py_str_def py_repr_def repr_depth_lib0
      int_repr_large)

lemma cast_as_str_of_singleton_list:
  "cast_as lib0 (PList [PInt 5]) TStr = Inr (PStr ''[5]'')"
  by (simp add: cast_as_def py_str_def py_repr_def repr_depth_lib0 int_repr_small int_str_def
      nat_digits.simps digit_char_def)

section \<open>Properties of the structural caster\<close>

lemma update_fresh: "k \<notin> fst ` set al \<Longrightarrow> AList.update k v al = al @ [(k, v)]"
  by (induction al) auto

lemma update_middle:
  "k \<notin> fst ` set xs \<Longrightarrow> AList.update k w (xs @ (k, v) # ys) = xs @ (k, w) # ys"
  by (induction xs) auto

lemma coerced_fst [simp]: "fst (coerced L annotations item) = fst item"
  by (simp add: coerced_def split: option.splits sum.splits)

lemma cast_fields_loop:
  assumes "distinct (map fst (xs @ items))"
      and "failures_caught L annotations items"
      and "fst ` set errors \<inter> fst ` set items = {}"
  shows "cast_fields L annotations items (xs @ items) errors =
           Inr (xs @ map (coerced L annotations) items, errors @ field_errors L annotations items)"
  using assms
proof (induction items arbitrary: xs errors)
  case Nil
  then show ?case by (simp add: field_errors_def map_filter_simps)
next
  case (Cons item items)
  obtain key v where item: "item = (key, v)" by (cases item)
  have c: "failures_caught L annotations items"
    using Cons.prems(2) by (simp add: failures_caught_def)
  have fresh: "key \<notin> fst ` set errors" "key \<notin> fst ` set xs" "key \<notin> fst ` set items"
    using Cons.prems(1,3) by (auto simp: item)
  show ?case
  proof (cases "map_of annotations key")
    case None
    have e: "fst ` set errors \<inter> fst ` set items = {}" using Cons.prems(3) by auto
    have "cast_fields L annotations (item # items) (xs @ item # items) errors =
          cast_fields L annotations items ((xs @ [item]) @ items) errors"
      by (simp add: item None)
    also have "\<dots> = Inr ((xs @ [item]) @ map (coerced L annotations) items,
                        errors @ field_errors L annotations items)"
      using Cons.IH [of "xs @ [item]" errors] Cons.prems(1) c e by simp
    finally show ?thesis
      by (simp add: item None coerced_def field_errors_def field_failure_def map_filter_simps)
  next
    case (Some annotation)
    show ?thesis
    proof (cases "cast_field L annotation v")
      case (Inr w)
      have e: "fst ` set errors \<inter> fst ` set items = {}" using Cons.prems(3) by auto
      have "cast_fields L annotations (item # items) (xs @ item # items) errors =
            cast_fields L annotations items ((xs @ [(key, w)]) @ items) errors"
        using fresh(2) by (simp add: item Some Inr update_middle)
      also have "\<dots> = Inr ((xs @ [(key, w)]) @ map (coerced L annotations) items,
                          errors @ field_errors L annotations items)"
        using Cons.IH [of "xs @ [(key, w)]" errors] Cons.prems(1) c e by (simp add: item)
      finally show ?thesis
        by (simp add: item Some Inr coerced_def field_errors_def field_failure_def
            map_filter_simps)
    next
      case (Inl err)
      let ?info = "ErrorInfo annotation v (type_name v) (Str_of (class_of err))"
      have caught: "caught_by_caster err"
        using Cons.prems(2) by (simp add: failures_caught_def item Some Inl)
      have e: "fst ` set (errors @ [(key, ?info)]) \<inter> fst ` set items = {}"
        using Cons.prems(3) fresh(3) by auto
      have "cast_fields L annotations (item # items) (xs @ item # items) errors =
            cast_fields L annotations items ((xs @ [item]) @ items) (errors @ [(key, ?info)])"
        using fresh(1) caught by (simp add: item Some Inl update_fresh)
      also have "\<dots> = Inr ((xs @ [item]) @ map (coerced L annotations) items,
                          (errors @ [(key, ?info)]) @ field_errors L annotations items)"
        using Cons.IH [of "xs @ [item]" "errors @ [(key, ?info)]"] Cons.prems(1) c e
        by (simp add: item)
      finally show ?thesis
        by (simp add: item Some Inl coerced_def field_errors_def field_failure_def
            map_filter_simps)
    qed
  qed
qed

lemma missing_keys_set:
  "set (missing_keys annotations d) = {key \<in> set (map fst annotations). key \<notin> set (map fst d)}"
  by (auto simp: missing_keys_def)

lemma message_failure_missing:
  "(\<And>key. key \<in> set keys \<Longrightarrow> has_name (the (map_of annotations key))) \<Longrightarrow>
   message_failure L (missing_errors annotations keys) = None"
  by (induction keys) (simp_all add: missing_errors_def py_repr_None)

lemma message_failure_nameless:
  "\<exists>key \<in> set keys. \<not> has_name (the (map_of annotations key)) \<Longrightarrow>
   message_failure L (missing_errors annotations keys) = Some AttributeError"
  by (induction keys) (auto simp: missing_errors_def py_repr_None)

text \<open>
  The missing-field check, for a class whose missing fields are all annotated with something
  that has a \<^verbatim>\<open>__name__\<close> (a class or a \<^verbatim>\<open>typing.Union\<close>). When the input mapping \<open>d\<close> lacks a
  declared field, \<^verbatim>\<open>cast_to_annotated_class\<close> fails with a \<^verbatim>\<open>ValidationError\<close> whose entries
  are the missing fields, each exactly once, each with the message
  \<^verbatim>\<open>Missing required field\<close>, the input value \<^verbatim>\<open>None\<close> and the declared type. No field is
  coerced: the result is the same for every library and for every mapping with the same
  keys, whatever its values are.
\<close>

lemma missing_field_gate:
  assumes "\<exists>key \<in> set (map fst (cls_annotations cls)). key \<notin> set (map fst d)"
      and "\<And>key a. map_of (cls_annotations cls) key = Some a \<Longrightarrow> key \<notin> set (map fst d) \<Longrightarrow>
             has_name a"
  shows "\<exists>errors.
           cast_to_annotated_class L d cls = Inl (ValidationError errors) \<and>
           distinct (map fst errors) \<and>
           set (map fst errors) =
             {key \<in> set (map fst (cls_annotations cls)). key \<notin> set (map fst d)} \<and>
           (\<forall>(key, info) \<in> set errors.
              err_error info = Missing_required_field \<and> err_input_value info = PNone \<and>
              err_input_type info = ''NoneType'' \<and>
              map_of (cls_annotations cls) key = Some (err_type info)) \<and>
           (\<forall>L' d'. map fst d' = map fst d \<longrightarrow>
              cast_to_annotated_class L' d' cls = cast_to_annotated_class L d cls)"
proof -
  let ?anns = "cls_annotations cls"
  let ?errors = "missing_errors ?anns (missing_keys ?anns d)"
  have ne: "missing_keys ?anns d \<noteq> []"
  proof
    assume "missing_keys ?anns d = []"
    then have "{key \<in> set (map fst ?anns). key \<notin> set (map fst d)} = {}"
      using missing_keys_set [of ?anns d] by simp
    then show False using assms(1) by blast
  qed
  have named: "has_name (the (map_of ?anns key))" if "key \<in> set (missing_keys ?anns d)" for key
  proof -
    from that have k: "key \<in> fst ` set ?anns" "key \<notin> set (map fst d)"
      by (auto simp: missing_keys_def)
    then obtain a where a: "map_of ?anns key = Some a"
      by (metis map_of_eq_None_iff not_Some_eq)
    from assms(2) [OF a k(2)] a show ?thesis by simp
  qed
  have ok: "raise_ValidationError L' ?errors = ValidationError ?errors" for L'
    using message_failure_missing [of "missing_keys ?anns d" ?anns L'] named
    by (simp add: raise_ValidationError_def)
  have keys: "map fst ?errors = missing_keys ?anns d"
    by (simp add: missing_errors_def comp_def)
  have r: "cast_to_annotated_class L d cls = Inl (ValidationError ?errors)"
    using ne by (simp add: cast_to_annotated_class_def Let_def ok)
  have same: "cast_to_annotated_class L' d' cls = cast_to_annotated_class L d cls"
    if "map fst d' = map fst d" for L' d'
  proof -
    have "missing_keys ?anns d' = missing_keys ?anns d"
      unfolding missing_keys_def that ..
    then show ?thesis
      using ne by (simp add: cast_to_annotated_class_def Let_def ok)
  qed
  have info: "\<forall>(key, info) \<in> set ?errors.
      err_error info = Missing_required_field \<and> err_input_value info = PNone \<and>
      err_input_type info = ''NoneType'' \<and> map_of ?anns key = Some (err_type info)"
  proof (clarify)
    fix key info assume "(key, info) \<in> set ?errors"
    then have k: "key \<in> set (missing_keys ?anns d)"
      and i: "info = ErrorInfo (the (map_of ?anns key)) PNone ''NoneType'' Missing_required_field"
      by (auto simp: missing_errors_def)
    from k have "key \<in> fst ` set ?anns" by (auto simp: missing_keys_def)
    then obtain a where "map_of ?anns key = Some a"
      by (metis map_of_eq_None_iff not_Some_eq)
    then show "err_error info = Missing_required_field \<and> err_input_value info = PNone \<and>
      err_input_type info = ''NoneType'' \<and> map_of ?anns key = Some (err_type info)"
      by (simp add: i)
  qed
  have dist: "distinct (map fst ?errors)"
    unfolding keys by (simp add: missing_keys_def)
  have dom: "set (map fst ?errors) = {key \<in> set (map fst ?anns). key \<notin> set (map fst d)}"
    using missing_keys_set [of ?anns d] by (simp only: keys)
  from r dist dom info same show ?thesis by blast
qed

text \<open>
  The lemma at the specification's example: \<^verbatim>\<open>{"name": "Alice"}\<close> against \<^verbatim>\<open>id\<close>,
  \<^verbatim>\<open>name\<close>, \<^verbatim>\<open>age\<close> fails with entries for \<^verbatim>\<open>id\<close> and \<^verbatim>\<open>age\<close> only.
\<close>

lemma missing_field_gate_Person:
  "cast_to_annotated_class lib0 [(''name'', PStr ''Alice'')] Person =
     Inl (ValidationError
       [(''id'', ErrorInfo (Plain TInt) PNone ''NoneType'' Missing_required_field),
        (''age'', ErrorInfo (Plain TFloat) PNone ''NoneType'' Missing_required_field)])"
  by (simp add: Person_def plain_class_def cast_to_annotated_class_def missing_keys_def
      missing_errors_def raise_ValidationError_def py_repr_None)

text \<open>
  C3 does not hold of the code. The class of the package's own test declares
  \<^verbatim>\<open>value: int | str\<close>. For the empty mapping, which lacks the field \<^verbatim>\<open>value\<close>,
  \<^verbatim>\<open>cast_to_annotated_class\<close> does not fail with an error entry for \<^verbatim>\<open>value\<close>: the
  \<^verbatim>\<open>ValidationError\<close> that holds the entry is never raised, because its constructor reads
  \<^verbatim>\<open>err['type'].__name__\<close> for the message and \<^verbatim>\<open>int | str\<close> has no \<^verbatim>\<open>__name__\<close>. The caller
  gets an \<^verbatim>\<open>AttributeError\<close> with no entries. With the same annotation written
  \<^verbatim>\<open>typing.Union[int, str]\<close> the call fails as the claim says, with the one entry.
\<close>

theorem missing_union_field_raises_AttributeError:
  "cast_to_annotated_class lib0 [] Config = Inl AttributeError \<and>
   missing_keys (cls_annotations Config) [] = [''value''] \<and>
   cast_to_annotated_class lib0 [] TypingConfig =
     Inl (ValidationError
            [(''value'',
              ErrorInfo (UnionOf [TInt, TStr]) PNone ''NoneType'' Missing_required_field)])"
  by (simp add: Config_def TypingConfig_def plain_class_def cast_to_annotated_class_def
      missing_keys_def missing_errors_def raise_ValidationError_def py_repr_None)

text \<open>
  The loop over the fields. When every declared field is present in \<open>d\<close> (a mapping, so its
  keys are distinct) and every coercion that fails does so with an exception the loop catches
  (\<^verbatim>\<open>ValueError\<close>, \<^verbatim>\<open>TypeError\<close>, \<^verbatim>\<open>ParserError\<close>, \<^verbatim>\<open>KeyError\<close> or a subclass), the loop
  visits every item. If a coercion failed, \<^verbatim>\<open>ValidationError\<close> is constructed with one entry
  for each declared field whose coercion failed, in the order of \<open>d\<close>, and no other entry, and
  it is what is raised unless its constructor raises; when none failed the instance is built
  from the coerced values.
\<close>

lemma field_errors_aggregated:
  assumes "set (map fst (cls_annotations cls)) \<subseteq> set (map fst d)"
      and "distinct (map fst d)"
      and "failures_caught L (cls_annotations cls) d"
  shows "cast_to_annotated_class L d cls =
           (if field_errors L (cls_annotations cls) d \<noteq> []
            then Inl (raise_ValidationError L (field_errors L (cls_annotations cls) d))
            else instantiate L cls (map (coerced L (cls_annotations cls)) d))"
proof -
  have "missing_keys (cls_annotations cls) d = []"
    using assms(1) by (auto simp: missing_keys_def filter_empty_conv)
  moreover have "cast_fields L (cls_annotations cls) d d [] =
      Inr (map (coerced L (cls_annotations cls)) d, field_errors L (cls_annotations cls) d)"
    using cast_fields_loop [of "[]" d L "cls_annotations cls" "[]"] assms(2,3) by simp
  ultimately show ?thesis
    by (simp add: cast_to_annotated_class_def Let_def)
qed

text \<open>
  The lemma at the specification's example: \<^verbatim>\<open>{"id": "x", "name": "Alice", "age": "y"}\<close>
  fails with entries for exactly \<^verbatim>\<open>id\<close> and \<^verbatim>\<open>age\<close>.
\<close>

lemma field_errors_aggregated_Person:
  "cast_to_annotated_class lib0
     [(''id'', PStr ''x''), (''name'', PStr ''Alice''), (''age'', PStr ''y'')] Person =
     Inl (ValidationError
       [(''id'', ErrorInfo (Plain TInt) (PStr ''x'') ''str'' (Str_of CValueError)),
        (''age'', ErrorInfo (Plain TFloat) (PStr ''y'') ''str'' (Str_of CValueError))])"
proof -
  let ?d = "[(''id'', PStr ''x''), (''name'', PStr ''Alice''), (''age'', PStr ''y'')]"
  have id: "cast_field lib0 (Plain TInt) (PStr ''x'') = Inl ValueError"
    by (simp add: cast_field_def cast_as_annotation_def cast_as_def int_of_str_x)
  have name: "cast_field lib0 (Plain TStr) (PStr ''Alice'') = Inr (PStr ''Alice'')"
    by (simp add: cast_field_def cast_as_annotation_def cast_as_def)
  have age: "cast_field lib0 (Plain TFloat) (PStr ''y'') = Inl ValueError"
    by (simp add: cast_field_def cast_as_annotation_def cast_as_def float_literal_y)
  have h1: "set (map fst (cls_annotations Person)) \<subseteq> set (map fst ?d)"
    by (simp add: Person_def plain_class_def)
  have h2: "distinct (map fst ?d)" by simp
  have h3: "failures_caught lib0 (cls_annotations Person) ?d"
    by (simp add: failures_caught_def Person_def plain_class_def id name age
        caught_by_caster_def is_ValueError_def)
  have fe: "field_errors lib0 (cls_annotations Person) ?d =
      [(''id'', ErrorInfo (Plain TInt) (PStr ''x'') ''str'' (Str_of CValueError)),
       (''age'', ErrorInfo (Plain TFloat) (PStr ''y'') ''str'' (Str_of CValueError))]"
    by (simp add: field_errors_def field_failure_def map_filter_simps Person_def
        plain_class_def id name age)
  show ?thesis
    using field_errors_aggregated [OF h1 h2 h3]
    by (simp add: fe raise_ValidationError_def py_repr_PStr)
qed

text \<open>
  C4 does not hold of the code. For \<^verbatim>\<open>{"a": 2 ** 1024, "b": "x"}\<close> against \<^verbatim>\<open>a: float\<close>,
  \<^verbatim>\<open>b: int\<close> both coercions fail, so the error should have exactly the keys \<^verbatim>\<open>a\<close> and
  \<^verbatim>\<open>b\<close>. But the failure of \<^verbatim>\<open>float(2 ** 1024)\<close> is an \<^verbatim>\<open>OverflowError\<close>, which the handler
  of the loop, \<^verbatim>\<open>except (ValueError, TypeError, dateutil.parser.ParserError, KeyError)\<close>,
  does not catch: the caller gets the \<^verbatim>\<open>OverflowError\<close>, \<^verbatim>\<open>b\<close> is never attempted and no
  error names either field. Likewise, for \<^verbatim>\<open>{"value": []}\<close> against \<^verbatim>\<open>value: int | str\<close> the
  coercion fails and is caught, but the constructor of the \<^verbatim>\<open>ValidationError\<close> raises an
  \<^verbatim>\<open>AttributeError\<close>, and that is what the caller gets.
\<close>

theorem field_overflow_escapes:
  "cast_to_annotated_class lib0 [(''a'', PInt (2 ^ 1024)), (''b'', PStr ''x'')]
     (plain_class ''C'' [(''a'', Plain TFloat), (''b'', Plain TInt)]) = Inl OverflowError \<and>
   cast_field lib0 (Plain TFloat) (PInt (2 ^ 1024)) = Inl OverflowError \<and>
   cast_field lib0 (Plain TInt) (PStr ''x'') = Inl ValueError \<and>
   cast_field lib0 (UnionType [TInt, TStr]) (PList []) = Inl (UnionTypeError [TInt, TStr]) \<and>
   cast_to_annotated_class lib0 [(''value'', PList [])] Config = Inl AttributeError"
proof -
  have r: "py_repr lib0 (PList []) = Inr ''[]''"
    by (simp add: py_repr_def)
  have u: "cast_field lib0 (UnionType [TInt, TStr]) (PList []) = Inl (UnionTypeError [TInt, TStr])"
    by (simp add: cast_field_def cast_as_annotation_def cast_as_union_def try_member_def r)
  have a: "cast_to_annotated_class lib0 [(''a'', PInt (2 ^ 1024)), (''b'', PStr ''x'')]
     (plain_class ''C'' [(''a'', Plain TFloat), (''b'', Plain TInt)]) = Inl OverflowError \<and>
   cast_field lib0 (Plain TFloat) (PInt (2 ^ 1024)) = Inl OverflowError \<and>
   cast_field lib0 (Plain TInt) (PStr ''x'') = Inl ValueError"
    by (simp add: cast_to_annotated_class_def plain_class_def missing_keys_def cast_field_def
        cast_as_annotation_def cast_as_def int_of_str_x caught_by_caster_def is_ValueError_def
        is_TypeError_def is_ParserError_def is_KeyError_def)
  have c: "cast_to_annotated_class lib0 [(''value'', PList [])] Config = Inl AttributeError"
    by (simp add: cast_to_annotated_class_def Config_def plain_class_def missing_keys_def u
        caught_by_caster_def is_TypeError_def raise_ValidationError_def)
  from a u c show ?thesis by simp
qed

section \<open>Properties of the pipeline\<close>

lemma validate_record_error_option:
  "validate_record L r model (opts\<lparr>opt_error_option := x\<rparr>) b = validate_record L r model opts b"
proof -
  let ?opts = "opts\<lparr>opt_error_option := x\<rparr>"
  have m: "validate_model L d model ?opts = validate_model L d model opts" for d
    by (cases model) (simp_all add: validate_model_def)
  have c: "check_rules ?opts v = check_rules opts v" for v
    by (simp add: check_rules_def)
  have p: "project_result ?opts v = project_result opts v" for v
    by (simp add: project_result_def)
  have t: "validate_try L d model ?opts = validate_try L d model opts" for d
    unfolding validate_try_def m c p ..
  have f: "opt_fields ?opts = opt_fields opts" and tr: "opt_transforms ?opts = opt_transforms opts"
    by simp_all
  show ?thesis
    unfolding validate_record_def t f tr ..
qed

lemma never_stops_error_option:
  "never_stops (opts\<lparr>opt_error_option := x\<rparr>) = never_stops opts"
  by (simp add: never_stops_def)

lemma process_record_ok:
  assumes "never_stops opts"
      and "validate_record L record model opts (opt_error_option opts = RAISE) = Inr res"
  shows "\<exists>s'. process_record L model opts index total' record s =
           (if rv_error res \<noteq> None \<and> opt_error_option opts = SKIP
            then ItemSkip s' else ItemYield res s')"
  using assms
  by (auto simp: process_record_def never_stops_def check_should_continue_def Let_def
      split: option.splits)

lemma process_record_raise:
  assumes "validate_record L record model opts (opt_error_option opts = RAISE) = Inl e"
  shows "process_record L model opts index total' record s =
           ItemRaise e (case opt_hooks opts of
                          None \<Rightarrow> s
                        | Some hooks \<Rightarrow> call_before_validate hooks record s)"
  using assms by (simp add: process_record_def Let_def)

lemma loop_run_no_raise:
  assumes "never_stops opts"
      and "map (\<lambda>r. validate_record L r model opts (opt_error_option opts = RAISE)) records =
             map Inr results"
  shows "fst (loop_run L model opts total' records index s) =
           (if opt_error_option opts = SKIP then [r \<leftarrow> results. rv_error r = None] else results) \<and>
         fst (snd (loop_run L model opts total' records index s)) = None"
  using assms(2)
proof (induction records arbitrary: results index s)
  case Nil
  then show ?case by simp
next
  case (Cons rec records)
  from Cons.prems obtain res rest where results: "results = res # rest"
    and res: "validate_record L rec model opts (opt_error_option opts = RAISE) = Inr res"
    and rest: "map (\<lambda>r. validate_record L r model opts (opt_error_option opts = RAISE)) records =
                 map Inr rest"
    by (cases results) auto
  from process_record_ok [OF assms(1) res, of index total' s]
  obtain s' where p: "process_record L model opts index total' rec s =
      (if rv_error res \<noteq> None \<and> opt_error_option opts = SKIP
       then ItemSkip s' else ItemYield res s')" by blast
  show ?case
    using Cons.IH [OF rest, of "Suc index" s'] p
    by (auto simp: results split: prod.splits)
qed

lemma loop_run_raise:
  assumes "never_stops opts" and "opt_error_option opts = RAISE"
      and "map (\<lambda>r. validate_record L r model opts True) pre = map Inr results"
      and "validate_record L bad model opts True = Inl e"
  shows "fst (loop_run L model opts total' (pre @ bad # post) index s) = results \<and>
         fst (snd (loop_run L model opts total' (pre @ bad # post) index s)) = Some e"
  using assms(3)
proof (induction pre arbitrary: results index s)
  case Nil
  then show ?case
    using process_record_raise [of L bad model opts e index total' s] assms(2,4) by simp
next
  case (Cons rec pre)
  from Cons.prems obtain res rest where results: "results = res # rest"
    and res: "validate_record L rec model opts True = Inr res"
    and rest: "map (\<lambda>r. validate_record L r model opts True) pre = map Inr rest"
    by (cases results) auto
  from process_record_ok [OF assms(1), of L rec model res index total' s] res assms(2)
  obtain s' where p: "process_record L model opts index total' rec s = ItemYield res s'"
    by auto
  show ?case
    using Cons.IH [OF rest, of "Suc index" s'] p
    by (auto simp: results split: prod.splits)
qed

lemma loop_run_count:
  assumes "opt_hooks opts = Some counting_hooks" and "opt_on_progress opts = None"
      and "opt_error_option opts = RAISE"
      and "map (\<lambda>r. validate_record L r model opts True) pre = map Inr results"
      and "validate_record L bad model opts True = Inl e"
  shows "snd (snd (loop_run L model opts total' (pre @ bad # post) index n)) = n + length pre + 1"
  using assms(4)
proof (induction pre arbitrary: results index n)
  case Nil
  then show ?case
    using assms(1,2,3,5)
    by (simp add: process_record_def Let_def counting_hooks_def call_before_validate_def)
next
  case (Cons rec pre)
  from Cons.prems obtain res rest where results: "results = res # rest"
    and res: "validate_record L rec model opts True = Inr res"
    and rest: "map (\<lambda>r. validate_record L r model opts True) pre = map Inr rest"
    by (cases results) auto
  have p: "process_record L model opts index total' rec n = ItemYield res (Suc n)"
    using assms(1,2,3) res
    by (simp add: process_record_def Let_def counting_hooks_def call_before_validate_def
        call_after_validate_def call_on_success_def call_on_error_def check_should_continue_def)
  show ?case
    using Cons.IH [OF rest, of "Suc index" "Suc n"] p
    by (auto split: prod.splits)
qed

lemma loop_run_log:
  assumes "opt_hooks opts = None" and "opt_on_progress opts = Some log_progress"
      and "opt_error_option opts \<noteq> RAISE"
      and "map (\<lambda>r. validate_record L r model opts False) records = map Inr results"
  shows "snd (snd (loop_run L model opts total' records index log)) =
           log @ map (\<lambda>(i, r). (i, total', r)) (List.enumerate index results)"
  using assms(4)
proof (induction records arbitrary: results index log)
  case Nil
  then show ?case by simp
next
  case (Cons rec records)
  from Cons.prems obtain res rest where results: "results = res # rest"
    and res: "validate_record L rec model opts False = Inr res"
    and rest: "map (\<lambda>r. validate_record L r model opts False) records = map Inr rest"
    by (cases results) auto
  have p: "process_record L model opts index total' rec log =
      (if rv_error res \<noteq> None \<and> opt_error_option opts = SKIP
       then ItemSkip (log @ [(index, total', res)])
       else ItemYield res (log @ [(index, total', res)]))"
    using assms(1,2,3) res by (simp add: process_record_def Let_def log_progress_def)
  show ?case
    using Cons.IH [OF rest, of "Suc index" "log @ [(index, total', res)]"] p
    by (auto simp: results split: prod.splits)
qed

lemma run_individual:
  assumes "\<not> (opt_bulk opts \<and> can_use_bulk model (opt_error_option opts))"
  shows "run L model opts (validate_records records) s =
           loop_run L model opts (Some (length (source_items records))) (source_items records) 0 s"
  using assms by (auto simp: validate_records_def start_def individual_def)

lemma can_use_bulk_not_return: "error_option \<noteq> RETURN \<Longrightarrow> \<not> can_use_bulk model error_option"
  by (cases model) simp_all

text \<open>
  The individual path (no bulk validation) with no \<^verbatim>\<open>should_continue\<close> hook, for an input
  whose every record \<^verbatim>\<open>validate_record\<close> turns into a result (\<open>results\<close>, in input
  order; a failed validation is a result with its error set). Under \<^verbatim>\<open>RETURN\<close> the
  generator yields exactly \<open>results\<close>, one per input item and in input order; under
  \<^verbatim>\<open>SKIP\<close> it yields the results without error, in the same relative order; neither
  raises. Under \<^verbatim>\<open>SKIP\<close> the progress callback is still called once for every input item,
  skipped or not, with the position of the item in the input as its index.
\<close>

lemma return_and_skip:
  assumes "\<not> opt_bulk opts" and "never_stops opts"
      and "map (\<lambda>r. validate_record L r model opts False) (source_items records) = map Inr results"
  shows "fst (run L model (opts\<lparr>opt_error_option := RETURN\<rparr>) (validate_records records) s) =
           results \<and>
         fst (snd (run L model (opts\<lparr>opt_error_option := RETURN\<rparr>) (validate_records records) s)) =
           None \<and>
         fst (run L model (opts\<lparr>opt_error_option := SKIP\<rparr>) (validate_records records) s) =
           [r \<leftarrow> results. rv_error r = None] \<and>
         fst (snd (run L model (opts\<lparr>opt_error_option := SKIP\<rparr>) (validate_records records) s)) =
           None \<and>
         (opt_hooks lopts = None \<and> opt_on_progress lopts = Some log_progress \<and>
          \<not> opt_bulk lopts \<and> opt_error_option lopts = SKIP \<and>
          map (\<lambda>r. validate_record L r model lopts False) (source_items records) = map Inr results
          \<longrightarrow>
          snd (snd (run L model lopts (validate_records records) log)) =
            log @ map (\<lambda>(i, r). (i, Some (length results), r)) (List.enumerate 0 results))"
proof -
  let ?R = "opts\<lparr>opt_error_option := RETURN\<rparr>" and ?S = "opts\<lparr>opt_error_option := SKIP\<rparr>"
  have len: "length (source_items records) = length results"
    using assms(3) by (metis length_map)
  have nbR: "\<not> (opt_bulk ?R \<and> can_use_bulk model (opt_error_option ?R))"
    and nbS: "\<not> (opt_bulk ?S \<and> can_use_bulk model (opt_error_option ?S))"
    using assms(1) by simp_all
  have vR: "map (\<lambda>r. validate_record L r model ?R (opt_error_option ?R = RAISE))
              (source_items records) = map Inr results"
    using assms(3) by (simp add: validate_record_error_option)
  have vS: "map (\<lambda>r. validate_record L r model ?S (opt_error_option ?S = RAISE))
              (source_items records) = map Inr results"
    using assms(3) by (simp add: validate_record_error_option)
  have nR: "never_stops ?R" and nS: "never_stops ?S"
    using assms(2) by (simp_all add: never_stops_error_option)
  have R: "fst (run L model ?R (validate_records records) s) = results \<and>
           fst (snd (run L model ?R (validate_records records) s)) = None"
    using loop_run_no_raise [OF nR vR] by (simp add: run_individual [OF nbR])
  have S: "fst (run L model ?S (validate_records records) s) = [r \<leftarrow> results. rv_error r = None] \<and>
           fst (snd (run L model ?S (validate_records records) s)) = None"
    using loop_run_no_raise [OF nS vS] by (simp add: run_individual [OF nbS])
  have P: "snd (snd (run L model lopts (validate_records records) log)) =
            log @ map (\<lambda>(i, r). (i, Some (length results), r)) (List.enumerate 0 results)"
    if h: "opt_hooks lopts = None" "opt_on_progress lopts = Some log_progress"
      "\<not> opt_bulk lopts" "opt_error_option lopts = SKIP"
      "map (\<lambda>r. validate_record L r model lopts False) (source_items records) = map Inr results"
  proof -
    have nb: "\<not> (opt_bulk lopts \<and> can_use_bulk model (opt_error_option lopts))"
      using h(3) by simp
    have ne: "opt_error_option lopts \<noteq> RAISE" using h(4) by simp
    show ?thesis
      using loop_run_log [OF h(1) h(2) ne h(5)] by (simp add: run_individual [OF nb] len)
  qed
  from R S P show ?thesis by blast
qed

text \<open>
  \<^verbatim>\<open>validate_record\<close> for a pydantic model class, with no transforms, field filter, rules or
  projection: the instance the oracle returns, or the oracle's error, returned in the result
  or raised.
\<close>

lemma validate_record_model:
  assumes "opt_transforms opts = None" and "opt_fields opts = None" and "opt_rules opts = None"
      and "opt_project_fields opts = None"
  shows "validate_record L r (PydanticClass m) opts b =
           (case model_validate m (opt_from_attributes opts) (opt_strict opts)
                   (to_pyval (record_dict_of r)) of
              Inr inst \<Rightarrow> Inr (RecordValidationResult None (Some inst) r)
            | Inl oe \<Rightarrow>
                (if b then Inl (PydanticValidationError (FromOracle oe))
                 else Inr (RecordValidationResult (Some (FromOracle oe)) None r)))"
  using assms
  by (simp add: validate_record_def apply_transforms_def validate_try_def validate_model_def
      check_rules_def project_result_def split: sum.splits)

lemma validate_ids:
  assumes "opt_transforms opts = None" and "opt_fields opts = None" and "opt_rules opts = None"
      and "opt_project_fields opts = None"
  shows "validate_record L first_id (PydanticClass IdModel) opts b = Inr first_id_result"
    and "validate_record L invalid_id (PydanticClass IdModel) opts b =
           (if b then Inl (PydanticValidationError (FromOracle (OracleError 0)))
            else Inr invalid_id_result)"
    and "validate_record L third_id (PydanticClass IdModel) opts b = Inr third_id_result"
  by (simp_all add: validate_record_model [OF assms] IdModel_def to_pyval_def first_id_def
      invalid_id_def third_id_def first_id_result_def invalid_id_result_def third_id_result_def)

text \<open>
  The lemma for the pydantic model class \<open>IdModel\<close> and its three records, the second one
  invalid: \<^verbatim>\<open>RETURN\<close> yields three results, the middle one with an error; \<^verbatim>\<open>SKIP\<close>
  yields the first and the third; the progress indices under \<^verbatim>\<open>SKIP\<close> are 0, 1, 2.
\<close>

lemma return_and_skip_IdModel:
  "rv_error invalid_id_result \<noteq> None \<and>
   fst (run lib0 (PydanticClass IdModel) (default_options\<lparr>opt_error_option := RETURN\<rparr>)
          (validate_records (ListSource [first_id, invalid_id, third_id]))
          ([] :: (nat \<times> nat option \<times> record_validation_result) list)) =
     [first_id_result, invalid_id_result, third_id_result] \<and>
   fst (run lib0 (PydanticClass IdModel) (default_options\<lparr>opt_error_option := SKIP\<rparr>)
          (validate_records (ListSource [first_id, invalid_id, third_id]))
          ([] :: (nat \<times> nat option \<times> record_validation_result) list)) =
     [first_id_result, third_id_result] \<and>
   snd (snd (run lib0 (PydanticClass IdModel)
          (default_options\<lparr>opt_error_option := SKIP, opt_on_progress := Some log_progress\<rparr>)
          (validate_records (ListSource [first_id, invalid_id, third_id])) [])) =
     [(0, Some 3, first_id_result), (1, Some 3, invalid_id_result), (2, Some 3, third_id_result)]"
proof -
  let ?opts = "default_options :: (nat \<times> nat option \<times> record_validation_result) list stream_options"
  let ?lopts = "?opts\<lparr>opt_error_option := SKIP, opt_on_progress := Some log_progress\<rparr>"
  have h1: "\<not> opt_bulk ?opts" and h2: "never_stops ?opts"
    by (simp_all add: default_options_def never_stops_def)
  have h3: "map (\<lambda>r. validate_record lib0 r (PydanticClass IdModel) ?opts False)
              (source_items (ListSource [first_id, invalid_id, third_id])) =
            map Inr [first_id_result, invalid_id_result, third_id_result]"
    by (simp add: validate_ids default_options_def)
  have l: "opt_hooks ?lopts = None \<and> opt_on_progress ?lopts = Some log_progress \<and>
      \<not> opt_bulk ?lopts \<and> opt_error_option ?lopts = SKIP \<and>
      map (\<lambda>r. validate_record lib0 r (PydanticClass IdModel) ?lopts False)
        (source_items (ListSource [first_id, invalid_id, third_id])) =
      map Inr [first_id_result, invalid_id_result, third_id_result]"
    by (simp add: validate_ids default_options_def)
  have e: "rv_error invalid_id_result \<noteq> None" "rv_error first_id_result = None"
    "rv_error third_id_result = None"
    by (simp_all add: invalid_id_result_def first_id_result_def third_id_result_def)
  show ?thesis
    using h1 h2 e l
      return_and_skip [OF h1 h2 h3, where lopts = ?lopts and s = "[]" and log = "[]"]
    by (simp add: enumerate_eq_zip)
qed

text \<open>
  \<^verbatim>\<open>validate_record\<close> for a class that is not a pydantic model, with no transforms, field
  filter, rules or projection. The instance the caster returns is the result. An error of
  the caster (it has at least one entry) is handed to \<^verbatim>\<open>from_exception_data\<close> with the type
  \<^verbatim>\<open>"type_error"\<close>, and the \<^verbatim>\<open>KeyError\<close> of that call leaves \<^verbatim>\<open>validate_record\<close>, whether
  \<open>raise_errors\<close> is set or not.
\<close>

lemma validate_record_cast_ok:
  assumes "opt_transforms opts = None" and "opt_fields opts = None" and "opt_rules opts = None"
      and "opt_project_fields opts = None"
      and "cast_to_annotated_class L (record_dict_of r) cls = Inr v"
  shows "validate_record L r (AnnotatedClass cls) opts b =
           Inr (RecordValidationResult None (Some v) r)"
  using assms
  by (simp add: validate_record_def apply_transforms_def validate_try_def validate_model_def
      check_rules_def project_result_def)

lemma validate_record_cast_error:
  assumes "opt_transforms opts = None" and "opt_fields opts = None" and "opt_rules opts = None"
      and "opt_project_fields opts = None"
      and "cast_to_annotated_class L (record_dict_of r) cls = Inl (ValidationError errors)"
      and "errors \<noteq> []"
  shows "validate_record L r (AnnotatedClass cls) opts b = Inl KeyError"
proof -
  obtain entry rest where e: "errors = entry # rest" using assms(6) by (cases errors) auto
  show ?thesis
    using assms(1-5)
    by (simp add: validate_record_def apply_transforms_def validate_try_def validate_model_def
        Let_def to_line_errors_def e split: prod.splits)
qed

lemma int_of_str_invalid: "int_of_str ''invalid'' = None"
  by (simp add: int_of_str_def strip_def is_space_def decimal_value_def digit_of_def
      digit_count_def max_str_digits_def)

lemma cast_alice:
  "cast_to_annotated_class L (record_dict_of alice) Person =
     Inr (PObject ''Person''
            [(''id'', PInt 1), (''name'', PStr ''Alice''), (''age'', PFloat 0x403E000000000000)])"
  by (simp add: alice_def Person_def plain_class_def cast_to_annotated_class_def missing_keys_def
      cast_field_def cast_as_annotation_def cast_as_def instantiate_def)

lemma cast_charlie:
  "cast_to_annotated_class L (record_dict_of charlie) Person =
     Inr (PObject ''Person''
            [(''id'', PInt 3), (''name'', PStr ''Charlie''), (''age'', PFloat 0x4041800000000000)])"
  by (simp add: charlie_def Person_def plain_class_def cast_to_annotated_class_def missing_keys_def
      cast_field_def cast_as_annotation_def cast_as_def instantiate_def)

lemma cast_bob: "cast_to_annotated_class L (record_dict_of bob) Person = Inl bob_failure"
  by (simp add: bob_def bob_failure_def Person_def plain_class_def cast_to_annotated_class_def
      missing_keys_def cast_field_def cast_as_annotation_def cast_as_def int_of_str_invalid
      caught_by_caster_def is_ValueError_def raise_ValidationError_def py_repr_PStr)

lemma validate_alice:
  assumes "opt_transforms opts = None" and "opt_fields opts = None" and "opt_rules opts = None"
      and "opt_project_fields opts = None"
  shows "validate_record L alice (AnnotatedClass Person) opts b = Inr alice_result"
  using validate_record_cast_ok [OF assms cast_alice] by (simp add: alice_result_def)

lemma validate_charlie:
  assumes "opt_transforms opts = None" and "opt_fields opts = None" and "opt_rules opts = None"
      and "opt_project_fields opts = None"
  shows "validate_record L charlie (AnnotatedClass Person) opts b = Inr charlie_result"
  using validate_record_cast_ok [OF assms cast_charlie] by (simp add: charlie_result_def)

lemma validate_bob:
  assumes "opt_transforms opts = None" and "opt_fields opts = None" and "opt_rules opts = None"
      and "opt_project_fields opts = None"
  shows "validate_record L bob (AnnotatedClass Person) opts b = Inl KeyError"
  using validate_record_cast_error [OF assms, of L bob Person] cast_bob [of L]
  by (simp add: bob_failure_def)

text \<open>
  C7 does not hold of the code. Take the specification's example with a class that is not a
  pydantic model: the records \<open>alice\<close>, \<open>bob\<close> (its \<^verbatim>\<open>id\<close> is no integer: the caster fails
  with a \<^verbatim>\<open>ValidationError\<close>) and \<open>charlie\<close>, validated against \<open>Person\<close> with the default
  options. Under \<^verbatim>\<open>RETURN\<close> the generator does not yield three results with the failure in
  the error slot of the second, and under \<^verbatim>\<open>SKIP\<close> it does not yield the first and the third:
  under either policy it yields the result of \<open>alice\<close> and then raises a \<^verbatim>\<open>KeyError\<close>, that of
  \<^verbatim>\<open>from_exception_data\<close> on the type \<^verbatim>\<open>"type_error"\<close>, with which \<^verbatim>\<open>validate_record\<close>
  tries to convert the caster's error; \<open>charlie\<close> is never validated.
\<close>

theorem return_and_skip_raise_KeyError:
  "cast_to_annotated_class lib0 (record_dict_of bob) Person = Inl bob_failure \<and>
   validate_record lib0 bob (AnnotatedClass Person) (default_options :: unit stream_options) False =
     Inl KeyError \<and>
   run lib0 (AnnotatedClass Person) (default_options\<lparr>opt_error_option := RETURN\<rparr>)
     (validate_records (ListSource [alice, bob, charlie])) () =
     ([alice_result], Some KeyError, ()) \<and>
   run lib0 (AnnotatedClass Person) (default_options\<lparr>opt_error_option := SKIP\<rparr>)
     (validate_records (ListSource [alice, bob, charlie])) () =
     ([alice_result], Some KeyError, ())"
proof -
  let ?o = "\<lambda>x. default_options\<lparr>opt_error_option := x\<rparr> :: unit stream_options"
  have a: "validate_record lib0 alice (AnnotatedClass Person) (?o x) b = Inr alice_result"
    and b: "validate_record lib0 bob (AnnotatedClass Person) (?o x) b = Inl KeyError" for x b
    by (simp_all add: validate_alice validate_bob default_options_def)
  have pa: "process_record lib0 (AnnotatedClass Person) (?o x) 0 total' alice () =
              ItemYield alice_result ()" if "x \<noteq> RAISE" for x total'
    using that a [of x False]
    by (simp add: process_record_def Let_def default_options_def alice_result_def)
  have pb: "process_record lib0 (AnnotatedClass Person) (?o x) (Suc 0) total' bob () =
              ItemRaise KeyError ()" if "x \<noteq> RAISE" for x total'
    using that b [of x False] by (simp add: process_record_def Let_def default_options_def)
  have r: "run lib0 (AnnotatedClass Person) (?o x)
             (validate_records (ListSource [alice, bob, charlie])) () =
             ([alice_result], Some KeyError, ())" if "x \<noteq> RAISE" for x
    using pa [OF that] pb [OF that]
    by (simp add: validate_records_def start_def individual_def default_options_def)
  have v: "validate_record lib0 bob (AnnotatedClass Person)
             (default_options :: unit stream_options) False = Inl KeyError"
    by (simp add: validate_bob default_options_def)
  show ?thesis
    using r [of RETURN] r [of SKIP] v cast_bob [of lib0] by simp
qed

lemma validate_record_reraises:
  assumes "apply_transforms (record_dict_of r) (opt_transforms opts) = Inr d"
      and "model_validate m (opt_from_attributes opts) (opt_strict opts)
             (to_pyval (case opt_fields opts of
                          None \<Rightarrow> d
                        | Some field_list \<Rightarrow> filter_record_fields d field_list)) = Inl oe"
  shows "validate_record L r (PydanticClass m) opts True =
           Inl (PydanticValidationError (FromOracle oe))"
  using assms
  by (simp add: validate_record_def validate_try_def validate_model_def Let_def)

text \<open>
  Under \<^verbatim>\<open>RAISE\<close>, with no \<^verbatim>\<open>should_continue\<close> hook: when the records \<open>pre\<close> validate
  and \<^verbatim>\<open>validate_record\<close> raises for the next record \<open>bad\<close>, the generator yields the
  results of \<open>pre\<close> and then raises what \<^verbatim>\<open>validate_record\<close> raised; for a pydantic model
  class whose oracle rejects \<open>bad\<close> that is the oracle's own error. No record after \<open>bad\<close> is
  processed: a \<^verbatim>\<open>before_validate\<close> hook that counts its invocations has been called once
  for each record of \<open>pre\<close> and once for \<open>bad\<close>.
\<close>

lemma raise_aborts:
  assumes "opt_error_option opts = RAISE" and "never_stops opts"
      and "source_items records = pre @ bad # post"
      and "map (\<lambda>r. validate_record L r model opts True) pre = map Inr results"
      and "validate_record L bad model opts True = Inl e"
  shows "fst (run L model opts (validate_records records) s) = results \<and>
         fst (snd (run L model opts (validate_records records) s)) = Some e \<and>
         (opt_error_option copts = RAISE \<and> opt_hooks copts = Some counting_hooks \<and>
          opt_on_progress copts = None \<and>
          map (\<lambda>r. validate_record L r model copts True) pre = map Inr results \<and>
          validate_record L bad model copts True = Inl e \<longrightarrow>
          snd (snd (run L model copts (validate_records records) n)) = n + length pre + 1) \<and>
         (model = PydanticClass m \<and>
          apply_transforms (record_dict_of bad) (opt_transforms opts) = Inr d \<and>
          model_validate m (opt_from_attributes opts) (opt_strict opts)
            (to_pyval (case opt_fields opts of
                         None \<Rightarrow> d
                       | Some field_list \<Rightarrow> filter_record_fields d field_list)) = Inl oe \<longrightarrow>
          e = PydanticValidationError (FromOracle oe))"
proof -
  have nb: "\<not> (opt_bulk opts \<and> can_use_bulk model (opt_error_option opts))"
    using assms(1) by (cases model) simp_all
  have a: "fst (run L model opts (validate_records records) s) = results \<and>
           fst (snd (run L model opts (validate_records records) s)) = Some e"
    using loop_run_raise [OF assms(2) assms(1) assms(4) assms(5)]
    by (simp add: run_individual [OF nb] assms(3))
  have b: "snd (snd (run L model copts (validate_records records) n)) = n + length pre + 1"
    if h: "opt_error_option copts = RAISE" "opt_hooks copts = Some counting_hooks"
      "opt_on_progress copts = None"
      "map (\<lambda>r. validate_record L r model copts True) pre = map Inr results"
      "validate_record L bad model copts True = Inl e"
  proof -
    have nbc: "\<not> (opt_bulk copts \<and> can_use_bulk model (opt_error_option copts))"
      using h(1) by (cases model) simp_all
    show ?thesis
      using loop_run_count [OF h(2) h(3) h(1) h(4) h(5)]
      by (simp add: run_individual [OF nbc] assms(3))
  qed
  have c: "e = PydanticValidationError (FromOracle oe)"
    if h: "model = PydanticClass m"
      "apply_transforms (record_dict_of bad) (opt_transforms opts) = Inr d"
      "model_validate m (opt_from_attributes opts) (opt_strict opts)
         (to_pyval (case opt_fields opts of
                      None \<Rightarrow> d
                    | Some field_list \<Rightarrow> filter_record_fields d field_list)) = Inl oe"
    using validate_record_reraises [OF h(2) h(3), of L] assms(5) h(1) by simp
  from a b c show ?thesis by blast
qed

text \<open>
  The lemma for the pydantic model class \<open>IdModel\<close> and its three records: exactly one
  result is yielded, the oracle's error for the second record is raised, and the counting
  hook has fired twice.
\<close>

lemma raise_aborts_IdModel:
  "run lib0 (PydanticClass IdModel)
     (default_options\<lparr>opt_error_option := RAISE, opt_hooks := Some counting_hooks\<rparr>)
     (validate_records (ListSource [first_id, invalid_id, third_id])) 0 =
     ([first_id_result], Some (PydanticValidationError (FromOracle (OracleError 0))), 2)"
proof -
  let ?opts = "default_options\<lparr>opt_error_option := RAISE, opt_hooks := Some counting_hooks\<rparr>"
  have h1: "opt_error_option ?opts = RAISE" by simp
  have h2: "never_stops ?opts" by (simp add: never_stops_def counting_hooks_def)
  have h3: "source_items (ListSource [first_id, invalid_id, third_id]) =
            [first_id] @ invalid_id # [third_id]" by simp
  have h4: "map (\<lambda>r. validate_record lib0 r (PydanticClass IdModel) ?opts True) [first_id] =
            map Inr [first_id_result]"
    by (simp add: validate_ids default_options_def)
  have h5: "validate_record lib0 invalid_id (PydanticClass IdModel) ?opts True =
            Inl (PydanticValidationError (FromOracle (OracleError 0)))"
    by (simp add: validate_ids default_options_def)
  have c: "opt_error_option ?opts = RAISE \<and> opt_hooks ?opts = Some counting_hooks \<and>
      opt_on_progress ?opts = None \<and>
      map (\<lambda>r. validate_record lib0 r (PydanticClass IdModel) ?opts True) [first_id] =
        map Inr [first_id_result] \<and>
      validate_record lib0 invalid_id (PydanticClass IdModel) ?opts True =
        Inl (PydanticValidationError (FromOracle (OracleError 0)))"
    using h4 h5 by (simp add: default_options_def)
  show ?thesis
    using h1 h2 h5 c raise_aborts [OF h1 h2 h3 h4 h5, where copts = ?opts and s = 0 and n = 0]
    by (simp add: prod_eq_iff)
qed

text \<open>
  C8 does not hold of the code. Take the specification's example with a class that is not a
  pydantic model: \<open>alice\<close>, \<open>bob\<close> (invalid) and \<open>charlie\<close> against \<open>Person\<close> under
  \<^verbatim>\<open>RAISE\<close>, with a \<^verbatim>\<open>before_validate\<close> hook that counts its invocations. One result is
  yielded, the iteration ends at \<open>bob\<close> and the hook has fired twice, but what reaches the
  caller is not the validation failure of \<open>bob\<close>: \<^verbatim>\<open>validate_record\<close> catches the caster's
  \<^verbatim>\<open>ValidationError\<close> and hands it to \<^verbatim>\<open>from_exception_data\<close> with the type
  \<^verbatim>\<open>"type_error"\<close> to raise it as a \<^verbatim>\<open>pydantic.ValidationError\<close>, and the \<^verbatim>\<open>KeyError\<close> of
  that call is what propagates.
\<close>

theorem raise_propagates_KeyError:
  "cast_to_annotated_class lib0 (record_dict_of bob) Person = Inl bob_failure \<and>
   validate_record lib0 bob (AnnotatedClass Person)
     (default_options\<lparr>opt_error_option := RAISE, opt_hooks := Some counting_hooks\<rparr>) True =
     Inl KeyError \<and>
   run lib0 (AnnotatedClass Person)
     (default_options\<lparr>opt_error_option := RAISE, opt_hooks := Some counting_hooks\<rparr>)
     (validate_records (ListSource [alice, bob, charlie])) 0 =
     ([alice_result], Some KeyError, 2)"
proof -
  let ?opts = "default_options\<lparr>opt_error_option := RAISE, opt_hooks := Some counting_hooks\<rparr>"
  have a: "validate_record lib0 alice (AnnotatedClass Person) ?opts True = Inr alice_result"
    and b: "validate_record lib0 bob (AnnotatedClass Person) ?opts True = Inl KeyError"
    by (simp_all add: validate_alice validate_bob default_options_def)
  have pa: "process_record lib0 (AnnotatedClass Person) ?opts 0 total' alice 0 =
              ItemYield alice_result (Suc 0)" for total'
    using a
    by (simp add: process_record_def Let_def default_options_def alice_result_def
        counting_hooks_def call_before_validate_def call_after_validate_def call_on_success_def
        call_on_error_def check_should_continue_def)
  have pb: "process_record lib0 (AnnotatedClass Person) ?opts (Suc 0) total' bob (Suc 0) =
              ItemRaise KeyError (Suc (Suc 0))" for total'
    using b
    by (simp add: process_record_def Let_def default_options_def counting_hooks_def
        call_before_validate_def)
  have r: "run lib0 (AnnotatedClass Person) ?opts
             (validate_records (ListSource [alice, bob, charlie])) 0 =
             ([alice_result], Some KeyError, 2)"
    using pa pb
    by (simp add: validate_records_def start_def individual_def default_options_def)
  show ?thesis
    using r b cast_bob [of lib0] by simp
qed

lemma consumed_idem [simp]: "consumed (consumed records) = consumed records"
  by (cases records) simp_all

lemma loop_next_source:
  "started_source (fst (snd (loop_next L model opts total' src records index s))) = src"
  by (induction records arbitrary: index s) (auto split: item_outcome.splits)

lemma bulk_next_source:
  "consumed src = src \<Longrightarrow>
   started_source (fst (snd (bulk_next L model opts total_count src rest idx s))) = src"
  by (cases rest) (auto simp: loop_next_source split: bulk_outcome.splits)

lemma resume_source:
  "consumed (started_source st) = started_source st \<Longrightarrow>
   started_source (fst (snd (resume L model opts st s))) = started_source st"
  by (cases st) (simp_all add: loop_next_source bulk_next_source)

lemma start_source: "started_source (start L model opts records) = consumed records"
  by (auto simp: start_def individual_def Let_def split: sum.splits option.splits model.splits)

text \<open>
  C6 does not hold of the code. The first \<^verbatim>\<open>next\<close> on the generator runs
  \<^verbatim>\<open>list(records)\<close> before the loop starts (on the bulk path and on the individual path
  alike), so whatever the arguments are, an iterator passed as \<^verbatim>\<open>records\<close> is empty when the
  first \<^verbatim>\<open>next\<close> returns. With the three records \<open>alice\<close>, \<open>bob\<close>, \<open>charlie\<close> the
  generator yields the result of the first with all three consumed and the other two held in
  its own list; an input that does not end never yields.
\<close>

theorem first_next_consumes_input:
  "source_left (fst (snd (gen_next L model opts (validate_records (IterSource xs)) s))) =
     IterSource [] \<and>
   gen_next lib0 (AnnotatedClass Person) default_options
     (validate_records (IterSource [alice, bob, charlie])) s =
     (Yield alice_result, Started (InLoop [bob, charlie] 1 (Some 3) (IterSource [])), s)"
proof
  let ?st = "start L model opts (IterSource xs)"
  have c: "consumed (started_source ?st) = started_source ?st"
    by (simp add: start_source)
  have "started_source (fst (snd (resume L model opts ?st s))) = IterSource []"
    using resume_source [OF c, of L model opts s] by (simp add: start_source)
  then show "source_left (fst (snd (gen_next L model opts (validate_records (IterSource xs)) s))) =
     IterSource []"
    by (cases "fst (snd (resume L model opts ?st s))")
      (auto simp: validate_records_def split: prod.splits)
next
  have v: "validate_record lib0 alice (AnnotatedClass Person)
             (default_options :: 'a stream_options) False = Inr alice_result"
    by (simp add: validate_alice default_options_def)
  have p: "process_record lib0 (AnnotatedClass Person) (default_options :: 'a stream_options)
             0 (Some 3) alice s = ItemYield alice_result s"
    using v by (simp add: process_record_def Let_def default_options_def alice_result_def)
  have st: "start lib0 (AnnotatedClass Person) (default_options :: 'a stream_options)
              (IterSource [alice, bob, charlie]) =
            InLoop [alice, bob, charlie] 0 (Some 3) (IterSource [])"
    by (simp add: start_def individual_def default_options_def)
  show "gen_next lib0 (AnnotatedClass Person) default_options
     (validate_records (IterSource [alice, bob, charlie])) s =
     (Yield alice_result, Started (InLoop [bob, charlie] 1 (Some 3) (IterSource [])), s)"
    by (simp add: validate_records_def st p)
qed

text \<open>
  What holds of every result on the individual path: its value is the record that was
  passed in, and exactly one of its error and its result is set. The same holds of
  \<^verbatim>\<open>validate_json\<close>.
\<close>

lemma from_exception_data_cases:
  "from_exception_data title line_errors = Inr (FromExceptionData title []) \<or>
   from_exception_data title line_errors = Inl KeyError \<or>
   from_exception_data title line_errors = Inl TypeError"
  by (cases line_errors) (simp_all split: error_type.splits)

lemma validate_record_invariant:
  assumes "validate_record L r model cfg b = Inr res"
  shows "rv_value res = r \<and> (rv_error res = None) \<noteq> (rv_result res = None)"
  using assms
  by (auto simp: validate_record_def Let_def split: sum.splits pyerr.splits if_splits)

lemma validate_json_invariant:
  assumes "validate_json json m strict b = Inr res"
  shows "jv_value res = json \<and> (jv_error res = None) \<noteq> (jv_result res = None)"
  using assms by (auto simp: validate_json_def split: sum.splits if_splits)

lemma process_record_invariant:
  assumes "process_record L model opts index total' r s = ItemYield res s'"
  shows "rv_value res = r \<and> (rv_error res = None) \<noteq> (rv_result res = None)"
proof -
  from assms obtain b where "validate_record L r model opts b = Inr res"
    by (auto simp: process_record_def Let_def split: sum.splits prod.splits if_splits)
  then show ?thesis by (rule validate_record_invariant)
qed

lemma loop_run_invariant:
  "res \<in> set (fst (loop_run L model opts total' records index s)) \<Longrightarrow>
   rv_value res \<in> set records \<and> (rv_error res = None) \<noteq> (rv_result res = None)"
proof (induction records arbitrary: index s)
  case Nil
  then show ?case by simp
next
  case (Cons r records)
  show ?case
  proof (cases "process_record L model opts index total' r s")
    case (ItemYield res' s')
    obtain rs e s'' where l: "loop_run L model opts total' records (Suc index) s' = (rs, e, s'')"
      by (cases "loop_run L model opts total' records (Suc index) s'") auto
    from Cons.prems ItemYield l have "res = res' \<or> res \<in> set rs" by simp
    then show ?thesis
    proof
      assume "res = res'"
      then show ?thesis using process_record_invariant [OF ItemYield] by simp
    next
      assume "res \<in> set rs"
      then show ?thesis using Cons.IH [of "Suc index" s'] l by simp
    qed
  next
    case (ItemSkip s')
    then show ?thesis using Cons.prems Cons.IH [of "Suc index" s'] by simp
  next
    case (ItemBreak s')
    then show ?thesis using Cons.prems by simp
  next
    case (ItemRaise e s')
    then show ?thesis using Cons.prems by simp
  qed
qed

lemma individual_results_invariant:
  assumes "\<not> (opt_bulk opts \<and> can_use_bulk model (opt_error_option opts))"
      and "res \<in> set (fst (run L model opts (validate_records records) s))"
  shows "rv_value res \<in> set (source_items records) \<and>
         (rv_error res = None) \<noteq> (rv_result res = None)"
  using assms(2) loop_run_invariant [of res L model opts _ "source_items records" 0 s]
  by (simp add: run_individual [OF assms(1)])

lemma apply_zero_transform:
  "apply_transforms [(''a'', PStr ''x'')] (Some (TransformList [zero_transform])) =
     Inr [(''a'', PInt 0)]"
  by (simp add: apply_transforms_def zero_transform_def)

text \<open>
  C9 does not hold of the bulk path. With bulk validation, a model class that accepts the
  record and a transform that replaces the value of \<^verbatim>\<open>a\<close> by 0, the result for the record
  \<^verbatim>\<open>{"a": "x"}\<close> has \<^verbatim>\<open>{"a": 0}\<close> as its value: the bulk loop stores
  \<^verbatim>\<open>records_list[idx]\<close> after \<^verbatim>\<open>records_list\<close> was rebound to the transformed records.
  Without bulk validation the same call stores the record as supplied.
\<close>

theorem bulk_value_is_transformed_record:
  "run lib0 (PydanticClass OpenModel)
     (default_options\<lparr>opt_bulk := True, opt_transforms := Some (TransformList [zero_transform])\<rparr>)
     (validate_records (ListSource [DictRecord [(''a'', PStr ''x'')]])) () =
     ([RecordValidationResult None (Some (PModel ''OpenModel'' [(''a'', PInt 0)]))
         (DictRecord [(''a'', PInt 0)])], None, ()) \<and>
   run lib0 (PydanticClass OpenModel)
     (default_options\<lparr>opt_bulk := False, opt_transforms := Some (TransformList [zero_transform])\<rparr>)
     (validate_records (ListSource [DictRecord [(''a'', PStr ''x'')]])) () =
     ([RecordValidationResult None (Some (PModel ''OpenModel'' [(''a'', PInt 0)]))
         (DictRecord [(''a'', PStr ''x'')])], None, ())"
proof
  let ?opts = "default_options\<lparr>opt_bulk := True,
      opt_transforms := Some (TransformList [zero_transform])\<rparr> :: unit stream_options"
  have st: "start lib0 (PydanticClass OpenModel) ?opts (ListSource [DictRecord [(''a'', PStr ''x'')]]) =
      InBulk [(PModel ''OpenModel'' [(''a'', PInt 0)], [(''a'', PInt 0)])] 0 1
        (ListSource [DictRecord [(''a'', PStr ''x'')]])"
    by (simp add: start_def default_options_def apply_zero_transform OpenModel_def to_pyval_def)
  have b: "bulk_item ?opts 0 1 (PModel ''OpenModel'' [(''a'', PInt 0)]) [(''a'', PInt 0)] () =
      BulkYield (RecordValidationResult None (Some (PModel ''OpenModel'' [(''a'', PInt 0)]))
         (DictRecord [(''a'', PInt 0)])) ()"
    by (simp add: bulk_item_def default_options_def)
  show "run lib0 (PydanticClass OpenModel) ?opts
     (validate_records (ListSource [DictRecord [(''a'', PStr ''x'')]])) () =
     ([RecordValidationResult None (Some (PModel ''OpenModel'' [(''a'', PInt 0)]))
         (DictRecord [(''a'', PInt 0)])], None, ())"
    using b by (simp add: validate_records_def st)
next
  let ?opts = "default_options\<lparr>opt_bulk := False,
      opt_transforms := Some (TransformList [zero_transform])\<rparr> :: unit stream_options"
  have v: "validate_record lib0 (DictRecord [(''a'', PStr ''x'')]) (PydanticClass OpenModel) ?opts False =
      Inr (RecordValidationResult None (Some (PModel ''OpenModel'' [(''a'', PInt 0)]))
         (DictRecord [(''a'', PStr ''x'')]))"
    by (simp add: validate_record_def apply_zero_transform default_options_def validate_try_def
        validate_model_def check_rules_def project_result_def OpenModel_def to_pyval_def)
  have p: "process_record lib0 (PydanticClass OpenModel) ?opts 0 (Some 1)
      (DictRecord [(''a'', PStr ''x'')]) () =
      ItemYield (RecordValidationResult None (Some (PModel ''OpenModel'' [(''a'', PInt 0)]))
         (DictRecord [(''a'', PStr ''x'')])) ()"
    using v by (simp add: process_record_def Let_def default_options_def)
  show "run lib0 (PydanticClass OpenModel) ?opts
     (validate_records (ListSource [DictRecord [(''a'', PStr ''x'')]])) () =
     ([RecordValidationResult None (Some (PModel ''OpenModel'' [(''a'', PInt 0)]))
         (DictRecord [(''a'', PStr ''x'')])], None, ())"
    using p by (simp add: validate_records_def start_def individual_def default_options_def)
qed

lemma apply_bad_transform:
  "apply_transforms d (Some (TransformList [bad_transform])) = Inl TransformShapeError"
  by (simp add: apply_transforms_def bad_transform_def)

lemma record_transform_not_a_dict:
  "func d = Inr (NotADict v) \<Longrightarrow>
   apply_transforms d (Some (TransformList (RecordTransform func # ts))) = Inl TransformShapeError"
  by (simp add: apply_transforms_def)

text \<open>
  Where \<^verbatim>\<open>validate_record\<close> applies the transforms, a record-level transform that returns
  something that is not a mapping makes \<^verbatim>\<open>apply_transforms\<close> raise
  (\<open>TransformShapeError\<close>, a \<^verbatim>\<open>ValueError\<close>), and the exception leaves
  \<^verbatim>\<open>validate_record\<close> whatever \<open>raise_errors\<close> is: the call is made before the \<^verbatim>\<open>try\<close>. In
  the individual loop of \<^verbatim>\<open>validate_records\<close>, under any policy and any other option, the
  \<^verbatim>\<open>next\<close> that reaches such a record raises the exception and finishes the generator: no
  result is yielded for the record and no later record is processed.
\<close>

lemma transform_shape_error_propagates:
  assumes "apply_transforms (record_dict_of r) (opt_transforms opts) = Inl TransformShapeError"
  shows "validate_record L r model opts raise_errors = Inl TransformShapeError \<and>
         fst (loop_next L model opts total' src (r # rest) index s) = Raise TransformShapeError \<and>
         fst (snd (loop_next L model opts total' src (r # rest) index s)) = Finished src \<and>
         fst (loop_run L model opts total' (r # rest) index s) = [] \<and>
         fst (snd (loop_run L model opts total' (r # rest) index s)) = Some TransformShapeError \<and>
         (\<not> (opt_bulk opts \<and> can_use_bulk model (opt_error_option opts)) \<and>
          source_items records = r # rest \<longrightarrow>
          fst (run L model opts (validate_records records) s) = [] \<and>
          fst (snd (run L model opts (validate_records records) s)) = Some TransformShapeError)"
proof -
  have v: "validate_record L r model opts b = Inl TransformShapeError" for b
    using assms by (simp add: validate_record_def)
  have p: "\<exists>s'. process_record L model opts index total' r s = ItemRaise TransformShapeError s'"
    for index total' s
    using process_record_raise [OF v] by blast
  have l: "fst (loop_run L model opts total' (r # rest) index s) = [] \<and>
           fst (snd (loop_run L model opts total' (r # rest) index s)) = Some TransformShapeError"
    for total' index s
    using p [of index total' s] by auto
  have n: "fst (loop_next L model opts total' src (r # rest) index s) = Raise TransformShapeError \<and>
           fst (snd (loop_next L model opts total' src (r # rest) index s)) = Finished src"
    using p [of index total' s] by auto
  have g: "fst (run L model opts (validate_records records) s) = [] \<and>
           fst (snd (run L model opts (validate_records records) s)) = Some TransformShapeError"
    if "\<not> (opt_bulk opts \<and> can_use_bulk model (opt_error_option opts))"
      "source_items records = r # rest"
    using l that by (simp add: run_individual)
  from v n l g show ?thesis by blast
qed

text \<open>
  The lemma at the record \<open>alice\<close> followed by \<open>charlie\<close>, with a record-level transform
  that returns the integer 5, under \<^verbatim>\<open>RETURN\<close>, \<^verbatim>\<open>RAISE\<close> and \<^verbatim>\<open>SKIP\<close>.
\<close>

lemma transform_shape_error_propagates_alice:
  "apply_transforms (record_dict_of alice) (Some (TransformList [bad_transform])) =
     Inl TransformShapeError \<and>
   validate_record lib0 alice (AnnotatedClass Person)
     (default_options\<lparr>opt_transforms := Some (TransformList [bad_transform])\<rparr>
        :: unit stream_options) False =
     Inl TransformShapeError \<and>
   run lib0 (AnnotatedClass Person)
     (default_options\<lparr>opt_transforms := Some (TransformList [bad_transform]),
        opt_error_option := RETURN\<rparr>)
     (validate_records (ListSource [alice, charlie])) () = ([], Some TransformShapeError, ()) \<and>
   run lib0 (AnnotatedClass Person)
     (default_options\<lparr>opt_transforms := Some (TransformList [bad_transform]),
        opt_error_option := RAISE\<rparr>)
     (validate_records (ListSource [alice, charlie])) () = ([], Some TransformShapeError, ()) \<and>
   run lib0 (AnnotatedClass Person)
     (default_options\<lparr>opt_transforms := Some (TransformList [bad_transform]),
        opt_error_option := SKIP\<rparr>)
     (validate_records (ListSource [alice, charlie])) () = ([], Some TransformShapeError, ())"
proof -
  let ?o = "\<lambda>x. default_options\<lparr>opt_transforms := Some (TransformList [bad_transform]),
              opt_error_option := x\<rparr> :: unit stream_options"
  have h: "apply_transforms (record_dict_of alice) (opt_transforms (?o x)) = Inl TransformShapeError"
    for x by (simp add: apply_bad_transform)
  have nb: "\<not> (opt_bulk (?o x) \<and> can_use_bulk (AnnotatedClass Person) (opt_error_option (?o x))) \<and>
            source_items (ListSource [alice, charlie]) = alice # [charlie]" for x
    by (simp add: default_options_def)
  have r: "run lib0 (AnnotatedClass Person) (?o x) (validate_records (ListSource [alice, charlie])) ()
             = ([], Some TransformShapeError, ())" for x
    using transform_shape_error_propagates [OF h [of x], of lib0 "AnnotatedClass Person" False
        None "ListSource []" "[charlie]" 0 "()" "ListSource [alice, charlie]"] nb [of x]
    by (simp add: prod_eq_iff)
  have v: "validate_record lib0 alice (AnnotatedClass Person)
     (default_options\<lparr>opt_transforms := Some (TransformList [bad_transform])\<rparr> :: unit stream_options)
     False = Inl TransformShapeError"
    by (simp add: validate_record_def apply_bad_transform)
  show ?thesis
    using r [of RETURN] r [of RAISE] r [of SKIP] v by (simp add: apply_bad_transform)
qed

text \<open>
  C5 does not hold of the code. Take bulk validation (\<^verbatim>\<open>bulk=True\<close>, a pydantic model
  class, \<^verbatim>\<open>RETURN\<close>), an iterator over one record and a record-level transform that returns
  the integer 5. The error of the transform does not reach the caller: the transforms are
  first applied inside the bulk attempt, whose \<^verbatim>\<open>except Exception: pass\<close> catches the
  exception, and the individual validation that follows reads \<^verbatim>\<open>records\<close> again, the
  iterator that \<^verbatim>\<open>list(records)\<close> has emptied. The generator ends with no result and no
  exception. With the same record in a list, or without bulk validation, the exception is
  raised.
\<close>

theorem bulk_loses_transform_error:
  "apply_transforms (record_dict_of (DictRecord [(''a'', PInt 1)]))
     (Some (TransformList [bad_transform])) = Inl TransformShapeError \<and>
   run lib0 (PydanticClass OpenModel)
     (default_options\<lparr>opt_bulk := True, opt_transforms := Some (TransformList [bad_transform])\<rparr>)
     (validate_records (IterSource [DictRecord [(''a'', PInt 1)]])) () = ([], None, ()) \<and>
   run lib0 (PydanticClass OpenModel)
     (default_options\<lparr>opt_bulk := True, opt_transforms := Some (TransformList [bad_transform])\<rparr>)
     (validate_records (ListSource [DictRecord [(''a'', PInt 1)]])) () =
     ([], Some TransformShapeError, ()) \<and>
   run lib0 (PydanticClass OpenModel)
     (default_options\<lparr>opt_bulk := False, opt_transforms := Some (TransformList [bad_transform])\<rparr>)
     (validate_records (IterSource [DictRecord [(''a'', PInt 1)]])) () =
     ([], Some TransformShapeError, ())"
proof -
  let ?r = "DictRecord [(''a'', PInt 1)]"
  let ?o = "\<lambda>b. default_options\<lparr>opt_bulk := b,
              opt_transforms := Some (TransformList [bad_transform])\<rparr> :: unit stream_options"
  have p: "process_record lib0 (PydanticClass OpenModel) (?o b) 0 total' ?r () =
             ItemRaise TransformShapeError ()" for b total'
    by (simp add: process_record_def Let_def default_options_def validate_record_def
        apply_bad_transform)
  have i: "run lib0 (PydanticClass OpenModel) (?o True) (validate_records (IterSource [?r])) () =
             ([], None, ())"
    by (simp add: apply_bad_transform validate_records_def start_def individual_def
        default_options_def Let_def)
  have l: "run lib0 (PydanticClass OpenModel) (?o True) (validate_records (ListSource [?r])) () =
             ([], Some TransformShapeError, ())"
    using p [of True]
    by (simp add: apply_bad_transform validate_records_def start_def individual_def
        default_options_def Let_def)
  have n: "run lib0 (PydanticClass OpenModel) (?o False) (validate_records (IterSource [?r])) () =
             ([], Some TransformShapeError, ())"
    using p [of False]
    by (simp add: validate_records_def start_def individual_def default_options_def Let_def)
  show ?thesis
    using i l n by (simp add: apply_bad_transform)
qed

end
